theory Spec2Isabelle
  imports Complex_Main "HOL-Library.Sublist"
begin

section \<open>Conventions\<close>

text \<open>
  JavaScript numbers are modelled as reals; NaN and the infinities of IEEE-754 doubles are
  outside this development. On the path of the diversity filter, where an outcome turns on
  the last bit of a sum, every arithmetic operation rounds to binary64 (\<open>round64\<close> below);
  elsewhere the arithmetic is exact. Strings are lists of 8-bit characters, read as Latin-1
  code units. Exceptions are values of the type \<open>error\<close>, and a function that
  may throw returns \<open>error + 'a\<close>. Where a loop of the source may run forever
  (extractSkillContext and its callers) the result is an \<open>option\<close>, and \<open>None\<close> stands
  for a call that does not return.
\<close>

text \<open>
  Exceptions as values: \<^verbatim>\<open>new Error('User not found')\<close> of generateRecommendations, the
  \<^verbatim>\<open>TypeError\<close> of calling a method that a value does not have, and an error thrown by a
  library.
\<close>

datatype error = UserNotFound | TypeError | Thrown

text \<open>
  \<^verbatim>\<open>String.prototype.toLowerCase\<close> on Latin-1 code units, and
  \<^verbatim>\<open>String.prototype.includes\<close> (contiguous substring test).
\<close>

definition toLowerCase_char :: "char \<Rightarrow> char" where
  "toLowerCase_char c =
     (let n = (of_char c :: int)
      in if (65 \<le> n \<and> n \<le> 90) \<or> (192 \<le> n \<and> n \<le> 222 \<and> n \<noteq> 215)
         then char_of (n + 32) else c)"

definition toLowerCase :: "string \<Rightarrow> string" where
  "toLowerCase s = map toLowerCase_char s"

fun str_includes :: "string \<Rightarrow> string \<Rightarrow> bool" where
  "str_includes [] p = (p = [])"
| "str_includes (c # cs) p = (prefix p (c # cs) \<or> str_includes cs p)"

text \<open>
  \<^verbatim>\<open>Array.prototype.slice(0, end)\<close> for an integer \<open>end\<close>: a negative \<open>end\<close> counts
  from the end of the array.
\<close>

definition slice0 :: "'a list \<Rightarrow> int \<Rightarrow> 'a list" where
  "slice0 xs e = (if e < 0 then take (nat (int (length xs) + e)) xs else take (nat e) xs)"

text \<open>
  The quotient of two JavaScript numbers is NaN or an infinity when the divisor is zero;
  \<open>js_divide\<close> returns \<open>None\<close> exactly there, so that a division by zero shows in the
  result of every function that could perform one.
\<close>

definition js_divide :: "real \<Rightarrow> real \<Rightarrow> real option" where
  "js_divide x y = (if y = 0 then None else Some (x / y))"

subsection \<open>Binary64 arithmetic\<close>

text \<open>
  \<open>round64 x\<close> is the double nearest to \<open>x\<close>, ties going to the even significand:
  \<open>exponent x\<close> is the integer \<open>e\<close> with \<open>2^e \<le> x < 2^(e+1)\<close> for positive \<open>x\<close>, the
  significand has 53 bits, and below \<open>2^(-1022)\<close> the spacing stays that of the subnormal
  numbers. Overflow to infinity is not modelled. A decimal literal of the source denotes the
  double nearest to it (\<open>dbl\<close>), and \<^verbatim>\<open>+\<close>, \<^verbatim>\<open>-\<close>, \<^verbatim>\<open>*\<close>, \<^verbatim>\<open>/\<close> round their exact result.
\<close>

fun bitLength :: "nat \<Rightarrow> nat" where
  "bitLength n = (if n = 0 then 0 else Suc (bitLength (n div 2)))"

declare bitLength.simps [simp del]

definition exponent :: "real \<Rightarrow> int" where
  "exponent x = (if x \<ge> 1 then int (bitLength (nat \<lfloor>x\<rfloor>)) - 1
                 else - int (bitLength (nat (\<lceil>1 / x\<rceil> - 1))))"

definition pow2 :: "int \<Rightarrow> real" where
  "pow2 e = (if e \<ge> 0 then 2 ^ nat e else 1 / 2 ^ nat (- e))"

definition roundEven :: "real \<Rightarrow> int" where
  "roundEven y =
     (let f = \<lfloor>y\<rfloor>; r = y - of_int f
      in if r < 1 / 2 then f else if r > 1 / 2 then f + 1 else if even f then f else f + 1)"

definition round64 :: "real \<Rightarrow> real" where
  "round64 x =
     (if x = 0 then 0
      else let e = max (exponent \<bar>x\<bar>) (- 1022); q = pow2 (e - 52)
           in of_int (roundEven (x / q)) * q)"

definition dbl :: "real \<Rightarrow> real" where
  "dbl x = round64 x"

definition dbl_add :: "real \<Rightarrow> real \<Rightarrow> real" where
  "dbl_add a b = round64 (a + b)"

definition dbl_sub :: "real \<Rightarrow> real \<Rightarrow> real" where
  "dbl_sub a b = round64 (a - b)"

definition dbl_mul :: "real \<Rightarrow> real \<Rightarrow> real" where
  "dbl_mul a b = round64 (a * b)"

definition dbl_div :: "real \<Rightarrow> real \<Rightarrow> real" where
  "dbl_div a b = round64 (a / b)"

section \<open>Recommendation engine\<close>

subsection \<open>Data model\<close>

datatype status = Enrolled | InProgress | Completed | Dropped | Paused

record history =
  h_courseId :: string
  h_status :: status
  h_progress :: real
  h_timeSpent :: real
  h_rating :: "real option"

record source =
  s_type :: string
  s_score :: real
  s_reason :: string

text \<open>A scorer's candidate: \<^verbatim>\<open>{courseId, score, reason}\<close>.\<close>

record rec =
  r_courseId :: string
  r_score :: real
  r_reason :: string

text \<open>A merged candidate: \<^verbatim>\<open>{courseId, score, sources}\<close>.\<close>

record combined =
  c_courseId :: string
  c_score :: real
  c_sources :: "source list"

text \<open>
  Modelled from the spec: the Course schema (\<^verbatim>\<open>models/Course.js\<close> is not among the
  sources); the fields are those the engine reads.
\<close>

record course =
  course_id :: string
  course_title :: string
  course_skills :: "string list"
  course_category :: string
  course_provider :: string
  course_difficulty :: string

record user =
  u_id :: string
  u_learningHistory :: "history list"

text \<open>The snapshot of the two collections a request reads.\<close>

record db =
  db_users :: "user list"
  db_courses :: "course list"

text \<open>\<^verbatim>\<open>Course.find({ _id: { $in: ids } }).lean()\<close>\<close>

definition Course_find_in :: "db \<Rightarrow> string list \<Rightarrow> course list" where
  "Course_find_in d ids = filter (\<lambda>c. course_id c \<in> set ids) (db_courses d)"

text \<open>\<^verbatim>\<open>new Map(courses.map(c => [c._id.toString(), c]))\<close>: a later entry replaces an earlier one.\<close>

definition courseMapOf :: "course list \<Rightarrow> (string \<rightharpoonup> course)" where
  "courseMapOf courses = fold (\<lambda>c m. m(course_id c \<mapsto> c)) courses Map.empty"

subsection \<open>cosineSimilarity\<close>

definition cosineSimilarity :: "real list \<Rightarrow> real list \<Rightarrow> real option" where
  "cosineSimilarity vecA vecB =
     (if length vecA \<noteq> length vecB then Some 0
      else
        let dotProduct = sum_list (map (\<lambda>(a, b). a * b) (zip vecA vecB));
            normA = sum_list (map (\<lambda>a. a * a) vecA);
            normB = sum_list (map (\<lambda>b. b * b) vecB)
        in if normA = 0 \<or> normB = 0 then Some 0
           else js_divide dotProduct (sqrt normA * sqrt normB))"

subsection \<open>collaborativeFiltering\<close>

fun findIndex :: "('a \<Rightarrow> bool) \<Rightarrow> 'a list \<Rightarrow> nat option" where
  "findIndex p [] = None"
| "findIndex p (x # xs) = (if p x then Some 0 else map_option Suc (findIndex p xs))"

definition interactionWeight :: "history \<Rightarrow> real" where
  "interactionWeight h =
     (let weight = (if h_status h = Completed then 1.0
                    else if h_status h = InProgress then h_progress h / 100 else 0);
          weight = (case h_rating h of
                      None \<Rightarrow> weight
                    | Some rating \<Rightarrow> if rating = 0 then weight else weight * (rating / 5));
          weight = (if h_timeSpent h > 0 then weight * min (h_timeSpent h / 3600) 2 else weight)
      in min weight 2)"

definition interactionRow :: "course list \<Rightarrow> user \<Rightarrow> real list" where
  "interactionRow courses u =
     fold (\<lambda>h row.
        case findIndex (\<lambda>c. course_id c = h_courseId h) courses of
          None \<Rightarrow> row
        | Some courseIndex \<Rightarrow> row[courseIndex := interactionWeight h])
       (u_learningHistory u) (replicate (length courses) 0)"

definition buildInteractionMatrix :: "user list \<Rightarrow> course list \<Rightarrow> real list list" where
  "buildInteractionMatrix users courses = map (interactionRow courses) users"

record neighbour =
  n_userIndex :: nat
  n_similarity :: real

definition minSimilarityThreshold :: real where
  "minSimilarityThreshold = 0.1"

text \<open>
  A similarity that is not a number (\<open>None\<close>) fails the comparison with the threshold, as
  NaN does; cosineSimilarity never returns one.
\<close>

definition calculateUserSimilarities :: "real list list \<Rightarrow> nat \<Rightarrow> neighbour list" where
  "calculateUserSimilarities matrix userIndex =
     (let userRow = matrix ! userIndex;
          similarities = concat (map (\<lambda>i.
             if i = userIndex then []
             else case cosineSimilarity userRow (matrix ! i) of
                    None \<Rightarrow> []
                  | Some similarity \<Rightarrow>
                      if similarity > minSimilarityThreshold
                      then [\<lparr>n_userIndex = i, n_similarity = similarity\<rparr>] else [])
            [0..<length matrix])
      in take 20 (sort_key (\<lambda>s. - n_similarity s) similarities))"

definition generateCollaborativeRecs ::
  "real list list \<Rightarrow> neighbour list \<Rightarrow> nat \<Rightarrow> course list \<Rightarrow> rec list" where
  "generateCollaborativeRecs matrix similarities userIndex courses =
     (let userRow = matrix ! userIndex
      in concat (map (\<lambda>courseIndex.
           if userRow ! courseIndex > 0 then []
           else
             let (weightedSum, similaritySum) =
                   fold (\<lambda>s (ws, ss).
                      let rating = matrix ! n_userIndex s ! courseIndex
                      in if rating > 0 then (ws + n_similarity s * rating, ss + n_similarity s)
                         else (ws, ss))
                     similarities (0, 0)
             in if similaritySum > 0
                then let predictedRating = weightedSum / similaritySum
                     in if predictedRating > minSimilarityThreshold
                        then [\<lparr>r_courseId = course_id (courses ! courseIndex),
                               r_score = predictedRating,
                               r_reason = ''Users with similar interests also liked this course''\<rparr>]
                        else []
                else [])
          [0..<length courses]))"

definition collaborativeFiltering :: "db \<Rightarrow> string \<Rightarrow> rec list" where
  "collaborativeFiltering d userId =
     (let users = db_users d; courses = db_courses d
      in if length users < 2 \<or> length courses < 2 then []
         else
           let userItemMatrix = buildInteractionMatrix users courses
           in case findIndex (\<lambda>u. u_id u = userId) users of
                None \<Rightarrow> []
              | Some userIndex \<Rightarrow>
                  let userSimilarities = calculateUserSimilarities userItemMatrix userIndex
                  in generateCollaborativeRecs userItemMatrix userSimilarities userIndex courses)"

subsection \<open>calculateSkillSimilarity, calculateCourseSimilarity\<close>

definition calculateSkillSimilarity :: "string list \<Rightarrow> string list \<Rightarrow> real" where
  "calculateSkillSimilarity userSkills courseSkills =
     (if userSkills = [] \<or> courseSkills = [] then 0
      else
        let userSkillsLower = map toLowerCase userSkills;
            courseSkillsLower = map toLowerCase courseSkills;
            intersection = filter (\<lambda>skill.
                list_ex (\<lambda>courseSkill. str_includes courseSkill skill \<or> str_includes skill courseSkill)
                  courseSkillsLower) userSkillsLower;
            union = remdups (userSkillsLower @ courseSkillsLower)
        in dbl_div (real (length intersection)) (real (length union)))"

definition calculateCourseSimilarity :: "course \<Rightarrow> course \<Rightarrow> real" where
  "calculateCourseSimilarity course1 course2 =
     (let similarity = 0;
          similarity = (if course_category course1 = course_category course2
                        then dbl_add similarity (dbl 0.4) else similarity);
          skillSim = calculateSkillSimilarity (course_skills course1) (course_skills course2);
          similarity = dbl_add similarity (dbl_mul skillSim (dbl 0.4));
          similarity = (if course_difficulty course1 = course_difficulty course2
                        then dbl_add similarity (dbl 0.2) else similarity)
      in similarity)"

subsection \<open>combineRecommendations\<close>

record scorer_source =
  src_recs :: "rec list"
  src_weight :: real
  src_type :: string

text \<open>
  The \<^verbatim>\<open>Map\<close> keyed by courseId is an association list in insertion order; \<open>upsert\<close> is
  the body of the inner \<^verbatim>\<open>forEach\<close>: add to the existing entry, or append a new one.
\<close>

fun upsert :: "real \<Rightarrow> string \<Rightarrow> rec \<Rightarrow> combined list \<Rightarrow> combined list" where
  "upsert weight type rec [] =
     [\<lparr>c_courseId = r_courseId rec, c_score = r_score rec * weight,
       c_sources = [\<lparr>s_type = type, s_score = r_score rec, s_reason = r_reason rec\<rparr>]\<rparr>]"
| "upsert weight type rec (existing # rest) =
     (if c_courseId existing = r_courseId rec
      then existing\<lparr>c_score := c_score existing + r_score rec * weight,
                    c_sources := c_sources existing
                       @ [\<lparr>s_type = type, s_score = r_score rec, s_reason = r_reason rec\<rparr>]\<rparr> # rest
      else existing # upsert weight type rec rest)"

definition combineAll :: "scorer_source list \<Rightarrow> combined list" where
  "combineAll sources =
     fold (\<lambda>s combined. fold (upsert (src_weight s) (src_type s)) (src_recs s) combined) sources []"

text \<open>\<^verbatim>\<open>.sort((a, b) => b.score - a.score)\<close>: stable, descending by score.\<close>

definition combineRecommendations :: "scorer_source list \<Rightarrow> combined list" where
  "combineRecommendations sources = sort_key (\<lambda>c. - c_score c) (combineAll sources)"

text \<open>The engine's fixed weights, and the four sources as generateRecommendations builds them.\<close>

record weights =
  w_collaborative :: real
  w_contentBased :: real
  w_marketDriven :: real
  w_behavioral :: real

definition engine_weights :: weights where
  "engine_weights = \<lparr>w_collaborative = 0.35, w_contentBased = 0.35,
                     w_marketDriven = 0.20, w_behavioral = 0.10\<rparr>"

definition engineSources :: "rec list \<Rightarrow> rec list \<Rightarrow> rec list \<Rightarrow> rec list \<Rightarrow> scorer_source list" where
  "engineSources collaborativeRecs contentRecs marketRecs behavioralRecs =
     [\<lparr>src_recs = collaborativeRecs, src_weight = w_collaborative engine_weights, src_type = ''collaborative''\<rparr>,
      \<lparr>src_recs = contentRecs, src_weight = w_contentBased engine_weights, src_type = ''content-based''\<rparr>,
      \<lparr>src_recs = marketRecs, src_weight = w_marketDriven engine_weights, src_type = ''market-driven''\<rparr>,
      \<lparr>src_recs = behavioralRecs, src_weight = w_behavioral engine_weights, src_type = ''behavioral''\<rparr>]"

subsection \<open>applyDiversityFilter\<close>

text \<open>
  The inner loop over the already selected recommendations: a selected recommendation whose
  course is not in the map is skipped; the candidate fails on the first selected course that
  is more similar to it than \<open>1 - diversityFactor\<close>.
\<close>

definition isDiverse :: "(string \<rightharpoonup> course) \<Rightarrow> real \<Rightarrow> course \<Rightarrow> combined list \<Rightarrow> bool" where
  "isDiverse courseMap diversityFactor candidateCourse diverseRecs =
     list_all (\<lambda>selected.
        case courseMap (c_courseId selected) of
          None \<Rightarrow> True
        | Some selectedCourse \<Rightarrow>
            \<not> (calculateCourseSimilarity candidateCourse selectedCourse
                 > dbl_sub 1 diversityFactor))
       diverseRecs"

fun diversityLoop ::
  "(string \<rightharpoonup> course) \<Rightarrow> real \<Rightarrow> combined list \<Rightarrow> combined list \<Rightarrow> combined list" where
  "diversityLoop courseMap diversityFactor diverseRecs [] = diverseRecs"
| "diversityLoop courseMap diversityFactor diverseRecs (candidate # rest) =
     (case courseMap (c_courseId candidate) of
        None \<Rightarrow> diversityLoop courseMap diversityFactor diverseRecs rest
      | Some candidateCourse \<Rightarrow>
          if isDiverse courseMap diversityFactor candidateCourse diverseRecs
          then diversityLoop courseMap diversityFactor (diverseRecs @ [candidate]) rest
          else diversityLoop courseMap diversityFactor diverseRecs rest)"

definition applyDiversityFilter :: "db \<Rightarrow> combined list \<Rightarrow> real \<Rightarrow> combined list" where
  "applyDiversityFilter d recommendations diversityFactor =
     (case recommendations of
        [] \<Rightarrow> recommendations
      | [_] \<Rightarrow> recommendations
      | topRec # others \<Rightarrow>
          let courses = Course_find_in d (map c_courseId recommendations);
              courseMap = courseMapOf courses
          in diversityLoop courseMap diversityFactor [topRec] others)"

subsection \<open>filterCompletedCourses\<close>

definition completedCourseIds :: "history list \<Rightarrow> string set" where
  "completedCourseIds learningHistory =
     set (map h_courseId (filter (\<lambda>h. h_status h = Completed) learningHistory))"

definition filterCompletedCourses :: "combined list \<Rightarrow> history list \<Rightarrow> combined list" where
  "filterCompletedCourses recommendations learningHistory =
     filter (\<lambda>rec. c_courseId rec \<notin> completedCourseIds learningHistory) recommendations"

subsection \<open>enrichRecommendations\<close>

record explanation =
  x_primaryReason :: string
  x_sources :: "source list"
  x_confidence :: real

record enriched =
  e_courseId :: string
  e_score :: real
  e_course :: "course option"
  e_explanation :: "explanation option"

definition primaryReason :: "source list \<Rightarrow> string" where
  "primaryReason sources =
     (case sources of
        [] \<Rightarrow> ''Recommended based on your profile''
      | s # _ \<Rightarrow> if s_reason s = [] then ''Recommended based on your profile'' else s_reason s)"

definition enrich :: "(string \<rightharpoonup> course) \<Rightarrow> bool \<Rightarrow> combined \<Rightarrow> enriched" where
  "enrich courseMap includeExplanations rec =
     \<lparr>e_courseId = c_courseId rec, e_score = c_score rec,
      e_course = courseMap (c_courseId rec),
      e_explanation =
        (if includeExplanations
         then Some \<lparr>x_primaryReason = primaryReason (c_sources rec), x_sources = c_sources rec,
                    x_confidence = min (c_score rec) 1\<rparr>
         else None)\<rparr>"

definition enrichRecommendations :: "db \<Rightarrow> combined list \<Rightarrow> bool \<Rightarrow> enriched list" where
  "enrichRecommendations d recommendations includeExplanations =
     (let courseIds = map c_courseId recommendations;
          courses = Course_find_in d courseIds;
          courseMap = courseMapOf courses
      in filter (\<lambda>rec. e_course rec \<noteq> None)
           (map (enrich courseMap includeExplanations) recommendations))"

subsection \<open>generateRecommendations\<close>

text \<open>The default \<^verbatim>\<open>diversityFactor = 0.3\<close>.\<close>

definition defaultDiversityFactor :: real where
  "defaultDiversityFactor = dbl 0.3"

text \<open>The request options after destructuring, that is with the defaults filled in.\<close>

record options =
  o_limit :: int
  o_includeExplanations :: bool
  o_filterCompleted :: bool
  o_diversityFactor :: real

definition default_options :: options where
  "default_options = \<lparr>o_limit = 10, o_includeExplanations = True, o_filterCompleted = True,
                       o_diversityFactor = defaultDiversityFactor\<rparr>"

text \<open>
  The three scorers besides collaborativeFiltering query the store on their own and catch
  their own errors; here they are parameters of the request.
\<close>

record scorers =
  contentBasedFiltering :: "db \<Rightarrow> user \<Rightarrow> rec list"
  marketDrivenRecommendations :: "db \<Rightarrow> user \<Rightarrow> rec list"
  behavioralRecommendations :: "db \<Rightarrow> user \<Rightarrow> rec list"

text \<open>
  Modelled from the spec: CacheManager (\<^verbatim>\<open>services/CacheManager.js\<close> is not among the
  sources) is an advisory key-value store, \<^verbatim>\<open>get(key) -> value | miss\<close> and
  \<^verbatim>\<open>set(key, value, ttl)\<close>, keyed by (userId, request options). Expiry is left out, and
  a stored list is read back as it was written (the records here are plain data, which a
  round trip through JSON leaves as they are).
\<close>

type_synonym cache = "string \<times> options \<Rightarrow> enriched list option"

definition CacheManager_get :: "cache \<Rightarrow> string \<times> options \<Rightarrow> enriched list option" where
  "CacheManager_get c key = c key"

definition CacheManager_set :: "cache \<Rightarrow> string \<times> options \<Rightarrow> enriched list \<Rightarrow> cache" where
  "CacheManager_set c key v = c(key \<mapsto> v)"

definition generateRecommendations ::
  "scorers \<Rightarrow> db \<Rightarrow> cache \<Rightarrow> string \<Rightarrow> options \<Rightarrow> error + (enriched list \<times> cache)" where
  "generateRecommendations sc d c userId opts =
     (case CacheManager_get c (userId, opts) of
        Some cachedRecs \<Rightarrow> Inr (cachedRecs, c)
      | None \<Rightarrow>
          (case find (\<lambda>u. u_id u = userId) (db_users d) of
             None \<Rightarrow> Inl UserNotFound
           | Some user \<Rightarrow>
               let collaborativeRecs = collaborativeFiltering d userId;
                   contentRecs = contentBasedFiltering sc d user;
                   marketRecs = marketDrivenRecommendations sc d user;
                   behavioralRecs = behavioralRecommendations sc d user;
                   combinedRecs = combineRecommendations
                      (engineSources collaborativeRecs contentRecs marketRecs behavioralRecs);
                   finalRecs = applyDiversityFilter d combinedRecs (o_diversityFactor opts);
                   finalRecs = (if o_filterCompleted opts
                                then filterCompletedCourses finalRecs (u_learningHistory user)
                                else finalRecs);
                   finalRecs = slice0 finalRecs (o_limit opts);
                   enrichedRecs = enrichRecommendations d finalRecs (o_includeExplanations opts)
               in Inr (enrichedRecs, CacheManager_set c (userId, opts) enrichedRecs)))"

section \<open>Skill extractor\<close>

subsection \<open>Character classes and literal regular expressions\<close>

text \<open>
  The classes \<^verbatim>\<open>\d\<close>, \<^verbatim>\<open>\w\<close> and \<^verbatim>\<open>\s\<close> of JavaScript regular expressions, on Latin-1 code
  units, and \<^verbatim>\<open>String.prototype.trim\<close>.
\<close>

definition isDigit :: "char \<Rightarrow> bool" where
  "isDigit c = (let n = (of_char c :: int) in 48 \<le> n \<and> n \<le> 57)"

definition isWordChar :: "char \<Rightarrow> bool" where
  "isWordChar c =
     (let n = (of_char c :: int)
      in (48 \<le> n \<and> n \<le> 57) \<or> (65 \<le> n \<and> n \<le> 90) \<or> n = 95 \<or> (97 \<le> n \<and> n \<le> 122))"

definition isSpace :: "char \<Rightarrow> bool" where
  "isSpace c = (let n = (of_char c :: int) in (9 \<le> n \<and> n \<le> 13) \<or> n = 32 \<or> n = 160)"

definition trim :: "string \<Rightarrow> string" where
  "trim s = rev (dropWhile isSpace (rev (dropWhile isSpace s)))"

text \<open>
  \<^verbatim>\<open>new RegExp(`\\b${escapeRegex(lit)}\\b`, 'gi')\<close>: the escaped literal, compared without
  regard to case, between two word boundaries. \<open>wordBoundary text p\<close> is \<^verbatim>\<open>\b\<close> at
  position \<open>p\<close>: exactly one of the characters before and after \<open>p\<close> is a word character
  (the ends of the text count as non-word). \<open>execFrom\<close> is one call of \<^verbatim>\<open>exec\<close> with
  the given \<^verbatim>\<open>lastIndex\<close>: the index of the leftmost match at or after it.
\<close>

definition wordBoundary :: "string \<Rightarrow> nat \<Rightarrow> bool" where
  "wordBoundary text p =
     ((0 < p \<and> p \<le> length text \<and> isWordChar (text ! (p - 1)))
       \<noteq> (p < length text \<and> isWordChar (text ! p)))"

definition matchesAt :: "string \<Rightarrow> string \<Rightarrow> nat \<Rightarrow> bool" where
  "matchesAt text lit p =
     (p + length lit \<le> length text
      \<and> toLowerCase (take (length lit) (drop p text)) = toLowerCase lit
      \<and> wordBoundary text p \<and> wordBoundary text (p + length lit))"

fun searchFrom :: "string \<Rightarrow> string \<Rightarrow> nat \<Rightarrow> string \<Rightarrow> nat option" where
  "searchFrom text lit p [] = (if matchesAt text lit p then Some p else None)"
| "searchFrom text lit p (c # rest) =
     (if matchesAt text lit p then Some p else searchFrom text lit (p + 1) rest)"

definition execFrom :: "string \<Rightarrow> string \<Rightarrow> nat \<Rightarrow> nat option" where
  "execFrom text lit lastIndex =
     (if lastIndex > length text then None else searchFrom text lit lastIndex (drop lastIndex text))"

subsection \<open>extractSkillContext\<close>

text \<open>
  The \<^verbatim>\<open>while ((match = skillRegex.exec(text)) !== null)\<close> loop: each match sets
  \<^verbatim>\<open>lastIndex\<close> to its end. For the empty skill name the match is empty, \<^verbatim>\<open>lastIndex\<close>
  does not advance and the loop does not end; \<open>None\<close> is that outcome.
\<close>

definition contextWindow :: "string \<Rightarrow> string \<Rightarrow> nat \<Rightarrow> string" where
  "contextWindow text skillName index =
     (let start = index - 100;
          stop = min (length text) (index + length skillName + 100)
      in take (stop - start) (drop start text))"

partial_function (option) contextLoop :: "string \<Rightarrow> string \<Rightarrow> nat \<Rightarrow> string list \<Rightarrow> string list option" where
  "contextLoop text skillName lastIndex matches =
     (case execFrom text skillName lastIndex of
        None \<Rightarrow> Some matches
      | Some index \<Rightarrow>
          contextLoop text skillName (index + length skillName)
            (matches @ [contextWindow text skillName index]))"

fun join :: "string \<Rightarrow> string list \<Rightarrow> string" where
  "join sep [] = []"
| "join sep [x] = x"
| "join sep (x # y # ys) = x @ sep @ join sep (y # ys)"

definition extractSkillContext :: "string \<Rightarrow> string \<Rightarrow> string option" where
  "extractSkillContext text skillName =
     map_option (join '' ... '') (contextLoop text skillName 0 [])"

subsection \<open>analyzeSkillLevel\<close>

datatype level = Beginner | Intermediate | Advanced | Expert

record indicators =
  i_keywords :: "string list"
  i_years :: "string list"
  i_weight :: real

definition levelIndicators :: "(level \<times> indicators) list" where
  "levelIndicators =
     [(Expert, \<lparr>i_keywords = [''expert'', ''senior'', ''lead'', ''architect'', ''principal'', ''staff'',
                              ''distinguished'', ''fellow''],
                 i_years = [''8+'', ''9+'', ''10+'', ''5+ years'', ''6+ years'', ''7+ years'', ''8+ years'',
                          ''9+ years'', ''10+ years''],
                 i_weight = 1.0\<rparr>),
      (Advanced, \<lparr>i_keywords = [''advanced'', ''proficient'', ''experienced'', ''skilled'', ''strong'',
                                ''solid'', ''extensive''],
                   i_years = [''4+'', ''5+'', ''3+ years'', ''4+ years'', ''5+ years''],
                   i_weight = 0.8\<rparr>),
      (Intermediate, \<lparr>i_keywords = [''intermediate'', ''familiar'', ''working knowledge'', ''competent'',
                                    ''moderate'', ''some experience''],
                       i_years = [''2+'', ''3+'', ''1+ years'', ''2+ years'', ''3+ years''],
                       i_weight = 0.6\<rparr>),
      (Beginner, \<lparr>i_keywords = [''beginner'', ''basic'', ''learning'', ''novice'', ''entry'', ''junior'',
                                ''trainee'', ''intern''],
                   i_years = [''<1'', ''0-1'', ''6 months'', ''1 year''],
                   i_weight = 0.3\<rparr>)]"

text \<open>
  The matches of
  \<^verbatim>\<open>/(\d+)\s*(?:years?|yrs?)\s*(?:of|with|in|using)?\s*(?:experience\s*(?:with|in)?\s*)?/gi\<close>
  on the lower-cased context, as the list of the numbers captured by \<^verbatim>\<open>(\d+)\<close>. A match
  begins at a maximal run of digits that is followed, after optional white space, by
  \<^verbatim>\<open>year\<close> or \<^verbatim>\<open>yr\<close>; the optional groups after it consume letters and white space only,
  so they never hide the digits of a later match.
\<close>

definition parseInt :: "string \<Rightarrow> nat" where
  "parseInt ds = fold (\<lambda>c n. 10 * n + nat (of_char c - 48)) ds 0"

function yearMatches :: "string \<Rightarrow> nat list" where
  "yearMatches [] = []"
| "yearMatches (c # cs) =
     (if isDigit c
      then let digits = c # takeWhile isDigit cs;
               rest = dropWhile isDigit cs;
               after = dropWhile isSpace rest
           in (if prefix ''year'' after \<or> prefix ''yr'' after then [parseInt digits] else [])
              @ yearMatches rest
      else yearMatches cs)"
  by pat_completeness auto
termination
  by (relation "measure length") (auto simp: le_imp_less_Suc length_dropWhile_le)

text \<open>The \<^verbatim>\<open>if / else if\<close> chain inside the loop over the levels.\<close>

definition yearBucket :: "level \<Rightarrow> nat \<Rightarrow> real" where
  "yearBucket lvl years =
     (if years \<ge> 5 \<and> lvl = Expert then 0.8
      else if years \<ge> 3 \<and> lvl = Advanced then 0.8
      else if years \<ge> 1 \<and> lvl = Intermediate then 0.8
      else if years < 1 \<and> lvl = Beginner then 0.8
      else 0)"

definition levelScore :: "string \<Rightarrow> level \<Rightarrow> indicators \<Rightarrow> real" where
  "levelScore contextLower lvl ind =
     (let score = fold (\<lambda>keyword score.
                     if str_includes contextLower keyword then score + i_weight ind else score)
                   (i_keywords ind) 0;
          score = fold (\<lambda>yearPattern score.
                     if str_includes contextLower yearPattern then score + i_weight ind * 0.8 else score)
                   (i_years ind) score;
          score = fold (\<lambda>years score. score + yearBucket lvl years) (yearMatches contextLower) score
      in score)"

text \<open>
  \<^verbatim>\<open>Object.entries(levelScores).sort(([,a], [,b]) => b - a)[0]\<close>: the sort is stable, so
  among equal scores the level listed first in \<open>levelIndicators\<close> wins.
\<close>

definition bestLevel :: "string \<Rightarrow> level" where
  "bestLevel contextLower =
     (let levelScores = map (\<lambda>(lvl, ind). (lvl, levelScore contextLower lvl ind)) levelIndicators
      in case sort_key (\<lambda>(lvl, score). - score) levelScores of
           [] \<Rightarrow> Intermediate
         | (lvl, score) # _ \<Rightarrow> if score > 0 then lvl else Intermediate)"

definition analyzeSkillLevel :: "string \<Rightarrow> string \<Rightarrow> level option" where
  "analyzeSkillLevel text skillName =
     map_option (\<lambda>ctx. bestLevel (toLowerCase ctx)) (extractSkillContext text skillName)"

subsection \<open>preprocessText\<close>

text \<open>
  The argument of extractSkills is any JavaScript value: a string, or (\<open>JOther\<close>) a value
  without a \<^verbatim>\<open>replace\<close> method, such as \<^verbatim>\<open>undefined\<close>, \<^verbatim>\<open>null\<close> or a number, on which
  \<^verbatim>\<open>text.replace(...)\<close> throws a TypeError.
\<close>

datatype jsvalue = JString string | JOther

definition keepChar :: "char \<Rightarrow> bool" where
  "keepChar c = (isWordChar c \<or> isSpace c \<or> c \<in> set ''.,;:()-+#'')"

text \<open>\<^verbatim>\<open>.replace(/\s+/g, ' ')\<close>\<close>

function collapseSpaces :: "string \<Rightarrow> string" where
  "collapseSpaces [] = []"
| "collapseSpaces (c # cs) =
     (if isSpace c then CHR '' '' # collapseSpaces (dropWhile isSpace cs)
      else c # collapseSpaces cs)"
  by pat_completeness auto
termination
  by (relation "measure length") (auto simp: le_imp_less_Suc length_dropWhile_le)

definition preprocessText :: "jsvalue \<Rightarrow> error + string" where
  "preprocessText text =
     (case text of
        JOther \<Rightarrow> Inl TypeError
      | JString s \<Rightarrow>
          Inr (trim (collapseSpaces (map (\<lambda>c. if keepChar c then c else CHR '' '') s))))"

subsection \<open>Extraction methods\<close>

text \<open>
  A candidate as an extraction method pushes it, \<^verbatim>\<open>{name, confidence, method, ...}\<close>, and a
  skill as combineAndDeduplicateSkills and the level analysis extend it.
\<close>

record candidate =
  cd_name :: string
  cd_confidence :: real
  cd_method :: string

record skill =
  sk_name :: string
  sk_confidence :: real
  sk_method :: string
  sk_methods :: "string list"
  sk_level :: "level option"
  sk_context :: "string option"

definition skillsDatabase :: "(string \<times> string list) list" where
  "skillsDatabase =
     [(''programming'', [''javascript'', ''python'', ''java'', ''c++'', ''c#'', ''php'',
         ''ruby'', ''go'', ''rust'', ''swift'', ''kotlin'', ''scala'', ''r'', ''matlab'',
         ''perl'', ''shell'', ''bash'', ''powershell'', ''typescript'', ''dart'', ''elixir'',
         ''haskell'', ''clojure'', ''f#'', ''objective-c'', ''assembly'', ''cobol'', ''fortran'']),
      (''web'', [''html'', ''css'', ''sass'', ''less'', ''bootstrap'', ''tailwind'', ''react'',
         ''angular'', ''vue'', ''svelte'', ''jquery'', ''node.js'', ''express'', ''next.js'',
         ''nuxt.js'', ''gatsby'', ''webpack'', ''vite'', ''parcel'', ''babel'', ''eslint'',
         ''prettier'', ''jest'', ''cypress'', ''selenium'']),
      (''backend'', [''django'', ''flask'', ''fastapi'', ''spring'', ''spring boot'',
         ''laravel'', ''symfony'', ''rails'', ''asp.net'', ''express.js'', ''koa'', ''nestjs'',
         ''gin'', ''echo'', ''fiber'', ''actix'', ''rocket'']),
      (''databases'', [''mysql'', ''postgresql'', ''mongodb'', ''redis'', ''elasticsearch'',
         ''cassandra'', ''dynamodb'', ''sqlite'', ''oracle'', ''sql server'', ''mariadb'',
         ''couchdb'', ''neo4j'', ''influxdb'', ''clickhouse'']),
      (''cloud'', [''aws'', ''azure'', ''gcp'', ''google cloud'', ''docker'', ''kubernetes'',
         ''jenkins'', ''terraform'', ''ansible'', ''puppet'', ''chef'', ''vagrant'', ''helm'',
         ''istio'', ''prometheus'', ''grafana'', ''elk stack'', ''datadog'', ''new relic'',
         ''splunk'', ''nagios'', ''zabbix'']),
      (''datascience'', [''machine learning'', ''deep learning'', ''artificial intelligence'',
         ''data analysis'', ''data science'', ''pandas'', ''numpy'', ''scipy'', ''scikit-learn'',
         ''tensorflow'', ''pytorch'', ''keras'', ''opencv'', ''nltk'', ''spacy'', ''matplotlib'',
         ''seaborn'', ''plotly'', ''tableau'', ''power bi'', ''jupyter'', ''apache spark'',
         ''hadoop'', ''kafka'', ''airflow'']),
      (''mobile'', [''ios development'', ''android development'', ''react native'', ''flutter'',
         ''xamarin'', ''ionic'', ''cordova'', ''phonegap'', ''swift'', ''objective-c'',
         ''kotlin'', ''java android'']),
      (''design'', [''ui design'', ''ux design'', ''user experience'', ''user interface'',
         ''figma'', ''sketch'', ''adobe xd'', ''photoshop'', ''illustrator'', ''indesign'',
         ''after effects'', ''premiere pro'', ''blender'', ''3d modeling'', ''animation'',
         ''prototyping'', ''wireframing'', ''user research'']),
      (''management'', [''project management'', ''agile'', ''scrum'', ''kanban'', ''lean'',
         ''six sigma'', ''pmp'', ''product management'', ''business analysis'',
         ''requirements gathering'', ''stakeholder management'', ''risk management'',
         ''change management'', ''team leadership'', ''strategic planning'']),
      (''soft'', [''leadership'', ''communication'', ''teamwork'', ''problem solving'',
         ''critical thinking'', ''creativity'', ''adaptability'', ''time management'',
         ''conflict resolution'', ''negotiation'', ''presentation skills'', ''public speaking'',
         ''emotional intelligence'', ''mentoring'', ''coaching'', ''decision making'',
         ''analytical thinking'', ''attention to detail'']),
      (''security'', [''cybersecurity'', ''information security'', ''network security'',
         ''application security'', ''penetration testing'', ''ethical hacking'',
         ''vulnerability assessment'', ''incident response'', ''forensics'', ''compliance'',
         ''risk assessment'', ''security architecture'', ''cryptography'']),
      (''networking'', [''networking'', ''tcp/ip'', ''dns'', ''dhcp'', ''vpn'', ''firewall'',
         ''load balancing'', ''routing'', ''switching'', ''wireless'',
         ''network troubleshooting'', ''network design'', ''network monitoring'',
         ''network automation'', ''sdn'', ''network virtualization''])]"

definition allSkills :: "string list" where
  "allSkills = concat (map snd skillsDatabase)"

text \<open>\<^verbatim>\<open>String.prototype.split(sep)\<close> for a one-character separator.\<close>

fun split_on :: "char \<Rightarrow> string \<Rightarrow> string list" where
  "split_on sep [] = [[]]"
| "split_on sep (c # cs) =
     (if c = sep then [] # split_on sep cs
      else case split_on sep cs of
             [] \<Rightarrow> [[c]]
           | w # ws \<Rightarrow> (c # w) # ws)"

text \<open>
  extractDirectMatches: the body of \<^verbatim>\<open>this.allSkills.forEach\<close> for one catalogue entry.
  \<^verbatim>\<open>textLower.match(regex)\<close> is non-null exactly when the regular expression has a match.
\<close>

definition directMatchesFor :: "string \<Rightarrow> string \<Rightarrow> candidate list" where
  "directMatchesFor textLower skill =
     (let skillLower = toLowerCase skill
      in (if str_includes textLower skillLower \<and> execFrom textLower skillLower 0 \<noteq> None
          then [\<lparr>cd_name = skill, cd_confidence = 0.9, cd_method = ''direct_match''\<rparr>]
          else [])
       @ (if CHR '' '' \<in> set skill
          then let skillWords = split_on CHR '' '' skill;
                   matchedWords = filter (\<lambda>word. str_includes textLower (toLowerCase word)) skillWords
               in if real (length matchedWords) \<ge> real (length skillWords) * 0.7
                  then [\<lparr>cd_name = skill,
                         cd_confidence = 0.7 * (real (length matchedWords) / real (length skillWords)),
                         cd_method = ''partial_match''\<rparr>]
                  else []
          else []))"

definition extractDirectMatches :: "string \<Rightarrow> candidate list" where
  "extractDirectMatches text = concat (map (directMatchesFor (toLowerCase text)) allSkills)"

text \<open>
  calculateStringSimilarity: Jaccard similarity of the two sets of characters. For two empty
  strings JavaScript computes \<^verbatim>\<open>0 / 0 = NaN\<close>, which fails both comparisons of
  findBestSkillMatch as the \<open>0\<close> of HOL's division does.
\<close>

definition calculateStringSimilarity :: "string \<Rightarrow> string \<Rightarrow> real" where
  "calculateStringSimilarity str1 str2 =
     (let set1 = remdups str1; set2 = remdups str2;
          intersection = filter (\<lambda>x. x \<in> set set2) set1;
          union = remdups (set1 @ set2)
      in real (length intersection) / real (length union))"

definition findBestSkillMatch :: "string \<Rightarrow> (string \<times> real) option" where
  "findBestSkillMatch term =
     fst (fold (\<lambda>skill (bestMatch, bestSimilarity).
            let similarity = calculateStringSimilarity term (toLowerCase skill)
            in if similarity > bestSimilarity \<and> similarity > 0.7
               then (Some (skill, similarity), similarity)
               else (bestMatch, bestSimilarity))
          allSkills (None, 0))"

text \<open>
  What the model takes as given: the terms the \<^verbatim>\<open>compromise\<close> library returns for a text
  (nouns, adjectives and organizations, in this order) or the error it throws, and the two
  regular-expression passes extractWithPatterns and extractWithContext, each returning its
  candidates or throwing.
\<close>

record extractor_deps =
  compromise_terms :: "string \<Rightarrow> error + string list"
  extractWithPatterns :: "string \<Rightarrow> error + candidate list"
  extractWithContext :: "string \<Rightarrow> error + candidate list"

text \<open>extractWithNLP catches whatever the library throws and returns no candidates then.\<close>

definition extractWithNLP :: "extractor_deps \<Rightarrow> string \<Rightarrow> candidate list" where
  "extractWithNLP deps text =
     (case compromise_terms deps text of
        Inl e \<Rightarrow> []
      | Inr potentialSkills \<Rightarrow>
          concat (map (\<lambda>term.
             let cleanTerm = trim (toLowerCase term)
             in case findBestSkillMatch cleanTerm of
                  None \<Rightarrow> []
                | Some (skill, similarity) \<Rightarrow>
                    [\<lparr>cd_name = skill, cd_confidence = similarity * 0.6, cd_method = ''nlp_match''\<rparr>])
            potentialSkills))"

subsection \<open>combineAndDeduplicateSkills\<close>

text \<open>
  \<open>mergeSkill\<close> is the body of the inner \<^verbatim>\<open>forEach\<close> on the \<^verbatim>\<open>Map\<close> keyed by the
  lower-cased name (an association list in insertion order).
\<close>

fun mergeSkill :: "candidate \<Rightarrow> skill list \<Rightarrow> skill list" where
  "mergeSkill c [] =
     [\<lparr>sk_name = cd_name c, sk_confidence = cd_confidence c, sk_method = cd_method c,
       sk_methods = [cd_method c], sk_level = None, sk_context = None\<rparr>]"
| "mergeSkill c (existing # rest) =
     (if toLowerCase (sk_name existing) = toLowerCase (cd_name c)
      then existing\<lparr>sk_confidence := max (sk_confidence existing) (cd_confidence c),
                    sk_methods := sk_methods existing @ [cd_method c]\<rparr> # rest
      else existing # mergeSkill c rest)"

text \<open>
  The parameter \<^verbatim>\<open>skillArrays\<close> is iterated as an array of arrays. An element that is an
  array of candidates is merged; an element that is a candidate object has no
  \<^verbatim>\<open>forEach\<close>, and \<^verbatim>\<open>skills.forEach(...)\<close> throws a TypeError.
\<close>

datatype skill_item = SkillArray "candidate list" | SkillObject candidate

fun combineLoop :: "skill_item list \<Rightarrow> skill list \<Rightarrow> error + skill list" where
  "combineLoop [] skillMap = Inr skillMap"
| "combineLoop (SkillArray skills # rest) skillMap = combineLoop rest (fold mergeSkill skills skillMap)"
| "combineLoop (SkillObject _ # rest) skillMap = Inl TypeError"

definition combineAndDeduplicateSkills :: "skill_item list \<Rightarrow> error + skill list" where
  "combineAndDeduplicateSkills skillArrays = combineLoop skillArrays []"

subsection \<open>extractSkills\<close>

record extract_options =
  xo_includeConfidence :: bool
  xo_includeContext :: bool
  xo_minConfidence :: real
  xo_maxSkills :: int

definition default_extract_options :: extract_options where
  "default_extract_options = \<lparr>xo_includeConfidence = True, xo_includeContext = False,
                               xo_minConfidence = 0.3, xo_maxSkills = 50\<rparr>"

text \<open>
  The \<^verbatim>\<open>map\<close> that adds level and context to a skill; \<open>None\<close> when analyzeSkillLevel
  does not return.
\<close>

definition withLevel :: "string \<Rightarrow> bool \<Rightarrow> skill \<Rightarrow> skill option" where
  "withLevel cleanedText includeContext s =
     (case analyzeSkillLevel cleanedText (sk_name s) of
        None \<Rightarrow> None
      | Some lvl \<Rightarrow>
          if includeContext
          then (case extractSkillContext cleanedText (sk_name s) of
                  None \<Rightarrow> None
                | Some ctx \<Rightarrow> Some (s\<lparr>sk_level := Some lvl, sk_context := Some ctx\<rparr>))
          else Some (s\<lparr>sk_level := Some lvl, sk_context := None\<rparr>))"

text \<open>
  \<open>extractSkills_try\<close> is the \<^verbatim>\<open>try\<close> block: \<^verbatim>\<open>extractedSkills\<close> is the flat array of all
  candidates (each method's result is pushed with the spread operator), and that flat array is
  what combineAndDeduplicateSkills receives, so each of its elements is a candidate object.
  extractSkills adds the \<^verbatim>\<open>catch\<close>, which returns the empty list. The outer \<open>option\<close> is
  \<open>None\<close> when the call does not return.
\<close>

definition extractSkills_try ::
  "extractor_deps \<Rightarrow> jsvalue \<Rightarrow> extract_options \<Rightarrow> (error + skill list) option" where
  "extractSkills_try deps text opts =
     (case preprocessText text of
        Inl e \<Rightarrow> Some (Inl e)
      | Inr cleanedText \<Rightarrow>
          let directMatches = extractDirectMatches cleanedText
          in case extractWithPatterns deps cleanedText of
               Inl e \<Rightarrow> Some (Inl e)
             | Inr patternMatches \<Rightarrow>
                 let nlpMatches = extractWithNLP deps cleanedText
                 in case extractWithContext deps cleanedText of
                      Inl e \<Rightarrow> Some (Inl e)
                    | Inr contextMatches \<Rightarrow>
                        let extractedSkills = directMatches @ patternMatches @ nlpMatches @ contextMatches
                        in case combineAndDeduplicateSkills (map SkillObject extractedSkills) of
                             Inl e \<Rightarrow> Some (Inl e)
                           | Inr combinedSkills \<Rightarrow>
                               (case (if xo_includeConfidence opts
                                      then those (map (withLevel cleanedText (xo_includeContext opts))
                                                   combinedSkills)
                                      else Some combinedSkills) of
                                  None \<Rightarrow> None
                                | Some finalSkills \<Rightarrow>
                                    Some (Inr (slice0
                                      (sort_key (\<lambda>s. - sk_confidence s)
                                         (filter (\<lambda>s. sk_confidence s \<ge> xo_minConfidence opts) finalSkills))
                                      (xo_maxSkills opts)))))"

definition extractSkills :: "extractor_deps \<Rightarrow> jsvalue \<Rightarrow> extract_options \<Rightarrow> skill list option" where
  "extractSkills deps text opts =
     map_option (\<lambda>r. case r of Inl e \<Rightarrow> [] | Inr skills \<Rightarrow> skills) (extractSkills_try deps text opts)"

section \<open>Auxiliary notions for the statements and proofs\<close>

text \<open>
  \<open>weightedScore sources k\<close> adds \<open>score * weight\<close> over every entry with courseId \<open>k\<close> of
  every source; \<open>totalOf\<close> and \<open>combineStep\<close> serve the proofs.
\<close>

definition weightedScore :: "scorer_source list \<Rightarrow> string \<Rightarrow> real" where
  "weightedScore sources k =
     sum_list (map (\<lambda>s. sum_list (map (\<lambda>r. r_score r * src_weight s)
                                   (filter (\<lambda>r. r_courseId r = k) (src_recs s)))) sources)"

definition totalOf :: "string \<Rightarrow> combined list \<Rightarrow> real" where
  "totalOf k m = sum_list (map c_score (filter (\<lambda>c. c_courseId c = k) m))"

definition combineStep :: "scorer_source \<Rightarrow> combined list \<Rightarrow> combined list" where
  "combineStep s combined = fold (upsert (src_weight s) (src_type s)) (src_recs s) combined"

text \<open>
  \<open>courseOf d k\<close> is the course record the store holds for id \<open>k\<close>, as the
  \<^verbatim>\<open>courseMap\<close> of applyDiversityFilter and enrichRecommendations finds it.
\<close>

definition courseOf :: "db \<Rightarrow> string \<Rightarrow> course option" where
  "courseOf d k = courseMapOf (db_courses d) k"

text \<open>
  Auxiliary: the value of \<^verbatim>\<open>finalRecs\<close> after the diversity and completed filters, before
  the list is cut to the limit; and the invariant that every cached list holds course records.
\<close>

definition filteredRecs :: "scorers \<Rightarrow> db \<Rightarrow> user \<Rightarrow> options \<Rightarrow> combined list" where
  "filteredRecs sc d user opts =
     (let combinedRecs = combineRecommendations
            (engineSources (collaborativeFiltering d (u_id user)) (contentBasedFiltering sc d user)
               (marketDrivenRecommendations sc d user) (behavioralRecommendations sc d user));
          finalRecs = applyDiversityFilter d combinedRecs (o_diversityFactor opts)
      in if o_filterCompleted opts then filterCompletedCourses finalRecs (u_learningHistory user)
         else finalRecs)"

definition cacheHoldsCourses :: "cache \<Rightarrow> bool" where
  "cacheHoldsCourses c = (\<forall>key recs. c key = Some recs \<longrightarrow> (\<forall>r\<in>set recs. e_course r \<noteq> None))"

text \<open>
  Auxiliary: the order beginner < intermediate < advanced < expert; \<open>noIndicator\<close> says
  that no level keyword and no textual year phrase occurs in a context; \<open>bucketLevel\<close> is
  the level of a number of years on its own.
\<close>

definition levelRank :: "level \<Rightarrow> nat" where
  "levelRank lvl = (case lvl of Beginner \<Rightarrow> 0 | Intermediate \<Rightarrow> 1 | Advanced \<Rightarrow> 2 | Expert \<Rightarrow> 3)"

definition noIndicator :: "string \<Rightarrow> bool" where
  "noIndicator contextLower =
     list_all (\<lambda>(lvl, ind). list_all (\<lambda>k. \<not> str_includes contextLower k) (i_keywords ind @ i_years ind))
       levelIndicators"

definition bucketLevel :: "nat \<Rightarrow> level" where
  "bucketLevel n = (if n \<ge> 5 then Expert else if n \<ge> 3 then Advanced
                    else if n \<ge> 1 then Intermediate else Beginner)"

text \<open>
  \<open>newSkill c\<close> is the entry that a first candidate creates, and \<open>mergedFrom cs s\<close> says
  that the entry \<open>s\<close> is the merge of the candidates of \<open>cs\<close> with its lower-cased name:
  there is one, its confidence is their maximum, and its methods are theirs, in order.
\<close>

definition newSkill :: "candidate \<Rightarrow> skill" where
  "newSkill c = \<lparr>sk_name = cd_name c, sk_confidence = cd_confidence c, sk_method = cd_method c,
       sk_methods = [cd_method c], sk_level = None, sk_context = None\<rparr>"

definition mergedFrom :: "candidate list \<Rightarrow> skill \<Rightarrow> bool" where
  "mergedFrom cs s =
     (let same = filter (\<lambda>c. toLowerCase (cd_name c) = toLowerCase (sk_name s)) cs
      in same \<noteq> [] \<and> sk_confidence s = Max (set (map cd_confidence same))
         \<and> sk_methods s = map cd_method same)"

section \<open>Example data\<close>

definition ex_course :: "string \<Rightarrow> string \<Rightarrow> string list \<Rightarrow> string \<Rightarrow> course" where
  "ex_course i category skills difficulty =
     \<lparr>course_id = i, course_title = i, course_skills = skills, course_category = category,
      course_provider = ''acme'', course_difficulty = difficulty\<rparr>"

definition ex_cand :: "string \<Rightarrow> real \<Rightarrow> combined" where
  "ex_cand i sc = \<lparr>c_courseId = i, c_score = sc, c_sources = []\<rparr>"

definition ex_hist :: "string \<Rightarrow> status \<Rightarrow> history" where
  "ex_hist i st = \<lparr>h_courseId = i, h_status = st, h_progress = 100, h_timeSpent = 60, h_rating = None\<rparr>"

definition ex_user :: "string \<Rightarrow> history list \<Rightarrow> user" where
  "ex_user i hs = \<lparr>u_id = i, u_learningHistory = hs\<rparr>"

definition ex_courses :: "course list" where
  "ex_courses =
     [ex_course ''c1'' ''web'' [''react''] ''beginner'',
      ex_course ''c2'' ''web'' [''react''] ''beginner'',
      ex_course ''c3'' ''cloud'' [''docker''] ''advanced'']"

definition ex_rec :: "string \<Rightarrow> real \<Rightarrow> rec" where
  "ex_rec i sc = \<lparr>r_courseId = i, r_score = sc, r_reason = ''because''\<rparr>"

definition ex_db :: db where
  "ex_db = \<lparr>db_users = [ex_user ''u1'' [ex_hist ''c1'' Completed], ex_user ''u2'' []],
            db_courses = ex_courses\<rparr>"

definition cand1 :: combined where "cand1 = ex_cand ''c1'' 0.9"
definition cand2 :: combined where "cand2 = ex_cand ''c2'' 0.5"
definition cand3 :: combined where "cand3 = ex_cand ''c3'' 0.4"
definition cand9 :: combined where "cand9 = ex_cand ''c9'' 0.5"

text \<open>
  Courses close to the threshold of the diversity filter: n2 shares the category of n1 and
  three of its four skills with it; n3 shares category and difficulty with n1 and no skill.
\<close>

definition ex_courses_near :: "course list" where
  "ex_courses_near =
     [ex_course ''n1'' ''web'' [''react'', ''docker'', ''python''] ''beginner'',
      ex_course ''n2'' ''web'' [''react'', ''docker'', ''python'', ''kafka''] ''advanced'',
      ex_course ''n3'' ''web'' [] ''beginner'']"

definition ex_db_near :: db where
  "ex_db_near = \<lparr>db_users = [], db_courses = ex_courses_near\<rparr>"

definition near1 :: combined where "near1 = ex_cand ''n1'' 0.9"
definition near2 :: combined where "near2 = ex_cand ''n2'' 0.5"
definition near3 :: combined where "near3 = ex_cand ''n3'' 0.4"

definition nearFactor :: real where "nearFactor = dbl 0.4"

definition ex_db1 :: db where
  "ex_db1 = \<lparr>db_users = [ex_user ''u2'' []], db_courses = ex_courses\<rparr>"

definition ex_scorers :: scorers where
  "ex_scorers = \<lparr>contentBasedFiltering = (\<lambda>d u. [ex_rec ''c9'' 1, ex_rec ''c3'' 0.5]),
                 marketDrivenRecommendations = (\<lambda>d u. []),
                 behavioralRecommendations = (\<lambda>d u. [])\<rparr>"

definition ex_scorers2 :: scorers where
  "ex_scorers2 = \<lparr>contentBasedFiltering = (\<lambda>d u. [ex_rec ''c1'' 1, ex_rec ''c3'' 0.5]),
                  marketDrivenRecommendations = (\<lambda>d u. [ex_rec ''c3'' 0.5]),
                  behavioralRecommendations = (\<lambda>d u. [])\<rparr>"

definition ex_out :: "enriched list" where
  "ex_out = enrichRecommendations ex_db1
     (slice0 (filteredRecs ex_scorers2 ex_db1 (ex_user ''u2'' []) default_options)
        (o_limit default_options))
     (o_includeExplanations default_options)"

definition ex_deps :: extractor_deps where
  "ex_deps = \<lparr>compromise_terms = (\<lambda>t. Inr []), extractWithPatterns = (\<lambda>t. Inr []),
              extractWithContext = (\<lambda>t. Inr [])\<rparr>"

definition ex_failing_nlp :: extractor_deps where
  "ex_failing_nlp = \<lparr>compromise_terms = (\<lambda>t. Inl Thrown), extractWithPatterns = (\<lambda>t. Inr []),
                     extractWithContext = (\<lambda>t. Inr [])\<rparr>"

section \<open>Theorems\<close>

subsection \<open>filterCompletedCourses\<close>

text \<open>
  C5. The completed-course filter removes a candidate exactly when its courseId occurs in
  a history entry whose status is completed: the result is the input with precisely those
  candidates deleted (order and multiplicity of the others kept), so every such candidate
  is removed and no other candidate is.
\<close>

theorem filterCompletedCourses_exact:
  "filterCompletedCourses recs hist =
     filter (\<lambda>r. \<not> (\<exists>h \<in> set hist. h_status h = Completed \<and> h_courseId h = c_courseId r)) recs
   \<and> (\<forall>r \<in> set recs.
        (r \<in> set (filterCompletedCourses recs hist)) =
        (\<not> (\<exists>h \<in> set hist. h_status h = Completed \<and> h_courseId h = c_courseId r)))"
proof -
  have key: "\<And>r. (c_courseId r \<notin> completedCourseIds hist) =
      (\<not> (\<exists>h \<in> set hist. h_status h = Completed \<and> h_courseId h = c_courseId r))"
    by (force simp: completedCourseIds_def)
  show ?thesis
    unfolding filterCompletedCourses_def by (simp add: key)
qed

theorem filterCompletedCourses_exact_witness:
  "filterCompletedCourses [ex_cand ''c1'' 0.9, ex_cand ''c2'' 0.5, ex_cand ''c3'' 0.4]
     [ex_hist ''c1'' Completed, ex_hist ''c3'' InProgress]
   = [ex_cand ''c2'' 0.5, ex_cand ''c3'' 0.4]"
  using filterCompletedCourses_exact
    [of "[ex_cand ''c1'' 0.9, ex_cand ''c2'' 0.5, ex_cand ''c3'' 0.4]"
        "[ex_hist ''c1'' Completed, ex_hist ''c3'' InProgress]"]
  by (simp add: ex_cand_def ex_hist_def)

subsection \<open>cosineSimilarity and collaborativeFiltering\<close>

text \<open>
  C7. cosineSimilarity never divides by zero (its result is always a number, never the
  \<open>None\<close> of a zero divisor), and it is 0 whenever one of the two vectors has zero norm.
\<close>

theorem cosineSimilarity_zero_norm:
  "(\<exists>r. cosineSimilarity vecA vecB = Some r) \<and>
   (sqrt (sum_list (map (\<lambda>a. a * a) vecA)) = 0 \<or> sqrt (sum_list (map (\<lambda>b. b * b) vecB)) = 0
      \<longrightarrow> cosineSimilarity vecA vecB = Some 0)"
  by (simp add: cosineSimilarity_def js_divide_def Let_def)

theorem cosineSimilarity_zero_norm_witness:
  "sqrt (sum_list (map (\<lambda>a. a * a) [0, 0 :: real])) = 0 \<and> cosineSimilarity [0, 0] [3, 4] = Some 0"
  using cosineSimilarity_zero_norm [of "[0, 0]" "[3, 4]"] by simp

lemma findIndex_None_iff: "(findIndex p xs = None) = (\<forall>x\<in>set xs. \<not> p x)"
  by (induction xs) auto

text \<open>
  C6. collaborativeFiltering returns the empty list whenever the snapshot holds fewer than
  two users or fewer than two courses, or no user of the snapshot has the requested id.
\<close>

theorem collaborativeFiltering_insufficient:
  "length (db_users d) < 2 \<or> length (db_courses d) < 2 \<or> userId \<notin> u_id ` set (db_users d)
   \<Longrightarrow> collaborativeFiltering d userId = []"
proof -
  assume h: "length (db_users d) < 2 \<or> length (db_courses d) < 2 \<or> userId \<notin> u_id ` set (db_users d)"
  show ?thesis
  proof (cases "length (db_users d) < 2 \<or> length (db_courses d) < 2")
    case True
    then show ?thesis by (simp add: collaborativeFiltering_def Let_def)
  next
    case False
    with h have "userId \<notin> u_id ` set (db_users d)" by blast
    then have "findIndex (\<lambda>u. u_id u = userId) (db_users d) = None"
      by (auto simp: findIndex_None_iff)
    then show ?thesis by (simp add: collaborativeFiltering_def Let_def)
  qed
qed

theorem collaborativeFiltering_insufficient_witness:
  "collaborativeFiltering
     \<lparr>db_users = [ex_user ''u1'' [ex_hist ''c1'' Completed]], db_courses = ex_courses\<rparr> ''u1'' = []
   \<and> collaborativeFiltering
     \<lparr>db_users = [ex_user ''u1'' [ex_hist ''c1'' Completed], ex_user ''u2'' []],
      db_courses = [ex_course ''c1'' ''web'' [''react''] ''beginner'']\<rparr> ''u1'' = []
   \<and> collaborativeFiltering
     \<lparr>db_users = [ex_user ''u1'' [ex_hist ''c1'' Completed], ex_user ''u2'' []],
      db_courses = ex_courses\<rparr> ''u9'' = []"
proof (intro conjI)
  show "collaborativeFiltering
     \<lparr>db_users = [ex_user ''u1'' [ex_hist ''c1'' Completed]], db_courses = ex_courses\<rparr> ''u1'' = []"
    by (rule collaborativeFiltering_insufficient) simp
  show "collaborativeFiltering
     \<lparr>db_users = [ex_user ''u1'' [ex_hist ''c1'' Completed], ex_user ''u2'' []],
      db_courses = [ex_course ''c1'' ''web'' [''react''] ''beginner'']\<rparr> ''u1'' = []"
    by (rule collaborativeFiltering_insufficient) simp
  show "collaborativeFiltering
     \<lparr>db_users = [ex_user ''u1'' [ex_hist ''c1'' Completed], ex_user ''u2'' []],
      db_courses = ex_courses\<rparr> ''u9'' = []"
    by (rule collaborativeFiltering_insufficient) (simp add: ex_user_def)
qed

subsection \<open>combineRecommendations\<close>

lemma upsert_ids:
  "map c_courseId (upsert w t r m) =
     (if r_courseId r \<in> set (map c_courseId m) then map c_courseId m
      else map c_courseId m @ [r_courseId r])"
  by (induction m) auto

lemma upsert_total:
  "totalOf k (upsert w t r m) = totalOf k m + (if r_courseId r = k then r_score r * w else 0)"
  by (induction m) (auto simp: totalOf_def)

lemma filter_key_empty: "k \<notin> f ` set xs \<Longrightarrow> filter (\<lambda>x. f x = k) xs = []"
  by (induction xs) auto

lemma fold_upsert_ids_set:
  "c_courseId ` set (fold (upsert w t) rs m) = c_courseId ` set m \<union> r_courseId ` set rs"
proof (induction rs arbitrary: m)
  case Nil
  then show ?case by simp
next
  case (Cons r rs)
  have "set (map c_courseId (upsert w t r m)) = insert (r_courseId r) (set (map c_courseId m))"
    by (auto simp: upsert_ids)
  then have "c_courseId ` set (upsert w t r m) = insert (r_courseId r) (c_courseId ` set m)"
    by simp
  then show ?case using Cons.IH [of "upsert w t r m"] by simp
qed

lemma fold_upsert_distinct:
  "distinct (map c_courseId m) \<Longrightarrow> distinct (map c_courseId (fold (upsert w t) rs m))"
proof (induction rs arbitrary: m)
  case Nil
  then show ?case by simp
next
  case (Cons r rs)
  have "distinct (map c_courseId (upsert w t r m))"
    using Cons.prems by (simp add: upsert_ids)
  then show ?case using Cons.IH by simp
qed

lemma fold_upsert_total:
  "totalOf k (fold (upsert w t) rs m) =
     totalOf k m + sum_list (map (\<lambda>r. r_score r * w) (filter (\<lambda>r. r_courseId r = k) rs))"
proof (induction rs arbitrary: m)
  case Nil
  then show ?case by simp
next
  case (Cons r rs)
  show ?case
    by (simp add: Cons.IH upsert_total)
qed

lemma fold_combineStep_ids_set:
  "c_courseId ` set (fold combineStep sources m) =
     c_courseId ` set m \<union> (\<Union>s\<in>set sources. r_courseId ` set (src_recs s))"
proof (induction sources arbitrary: m)
  case Nil
  then show ?case by simp
next
  case (Cons s sources)
  have "c_courseId ` set (combineStep s m) = c_courseId ` set m \<union> r_courseId ` set (src_recs s)"
    by (simp add: combineStep_def fold_upsert_ids_set)
  then show ?case
    using Cons.IH [of "combineStep s m"] by (simp add: Un_assoc)
qed

lemma fold_combineStep_distinct:
  "distinct (map c_courseId m) \<Longrightarrow> distinct (map c_courseId (fold combineStep sources m))"
proof (induction sources arbitrary: m)
  case Nil
  then show ?case by simp
next
  case (Cons s sources)
  have "distinct (map c_courseId (combineStep s m))"
    unfolding combineStep_def using Cons.prems by (rule fold_upsert_distinct)
  then show ?case using Cons.IH by simp
qed

lemma fold_combineStep_total:
  "totalOf k (fold combineStep sources m) = totalOf k m + weightedScore sources k"
proof (induction sources arbitrary: m)
  case Nil
  then show ?case by (simp add: weightedScore_def)
next
  case (Cons s sources)
  have "totalOf k (combineStep s m) =
      totalOf k m + sum_list (map (\<lambda>r. r_score r * src_weight s) (filter (\<lambda>r. r_courseId r = k) (src_recs s)))"
    by (simp add: combineStep_def fold_upsert_total)
  moreover have "weightedScore (s # sources) k =
      sum_list (map (\<lambda>r. r_score r * src_weight s) (filter (\<lambda>r. r_courseId r = k) (src_recs s)))
      + weightedScore sources k"
    by (simp add: weightedScore_def)
  ultimately show ?case
    using Cons.IH [of "combineStep s m"] by simp
qed

lemma combineAll_combineStep: "combineAll sources = fold combineStep sources []"
  by (simp add: combineAll_def combineStep_def [abs_def])

lemma totalOf_distinct:
  "distinct (map c_courseId m) \<Longrightarrow> c \<in> set m \<Longrightarrow> totalOf (c_courseId c) m = c_score c"
proof (induction m)
  case Nil
  then show ?case by simp
next
  case (Cons a m)
  show ?case
  proof (cases "c = a")
    case True
    have "filter (\<lambda>x. c_courseId x = c_courseId a) m = []"
      using Cons.prems(1) by (simp add: filter_key_empty)
    then show ?thesis using True by (simp add: totalOf_def)
  next
    case False
    then have cm: "c \<in> set m" using Cons.prems(2) by simp
    then have "c_courseId a \<noteq> c_courseId c" using Cons.prems(1) by force
    then show ?thesis using Cons.IH cm Cons.prems(1) by (simp add: totalOf_def)
  qed
qed

lemma combineAll_score:
  "c \<in> set (combineAll sources) \<Longrightarrow> c_score c = weightedScore sources (c_courseId c)"
proof -
  assume c: "c \<in> set (combineAll sources)"
  have d: "distinct (map c_courseId (combineAll sources))"
    unfolding combineAll_combineStep by (rule fold_combineStep_distinct) simp
  have "totalOf (c_courseId c) [] = 0"
    by (simp add: totalOf_def)
  then have "totalOf (c_courseId c) (combineAll sources) = weightedScore sources (c_courseId c)"
    unfolding combineAll_combineStep by (simp add: fold_combineStep_total)
  then show ?thesis using totalOf_distinct [OF d c] by simp
qed

lemma combineRecommendations_set: "set (combineRecommendations sources) = set (combineAll sources)"
  by (simp add: combineRecommendations_def)

lemma combineRecommendations_distinct: "distinct (map c_courseId (combineRecommendations sources))"
proof -
  have d: "distinct (map c_courseId (combineAll sources))"
    unfolding combineAll_combineStep by (rule fold_combineStep_distinct) simp
  then show ?thesis
    by (simp add: combineRecommendations_def distinct_map)
qed

lemma single_source_bound:
  assumes "distinct (map r_courseId rs)" and "\<forall>r\<in>set rs. 0 \<le> r_score r \<and> r_score r \<le> 1" and "0 \<le> w"
  shows "0 \<le> sum_list (map (\<lambda>r. r_score r * w) (filter (\<lambda>r. r_courseId r = k) rs))
       \<and> sum_list (map (\<lambda>r. r_score r * w) (filter (\<lambda>r. r_courseId r = k) rs)) \<le> w"
  using assms
proof (induction rs)
  case Nil
  then show ?case by simp
next
  case (Cons a rs)
  show ?case
  proof (cases "r_courseId a = k")
    case True
    have "filter (\<lambda>r. r_courseId r = k) rs = []"
      using Cons.prems(1) True by (simp add: filter_key_empty)
    moreover have "0 \<le> r_score a * w" "r_score a * w \<le> w"
      using Cons.prems(2,3) by (simp_all add: mult_left_le_one_le)
    ultimately show ?thesis using True by simp
  next
    case False
    then show ?thesis using Cons by simp
  qed
qed

lemma engine_weights_sum:
  "w_collaborative engine_weights + w_contentBased engine_weights
     + w_marketDriven engine_weights + w_behavioral engine_weights = 1"
  by (simp add: engine_weights_def)

lemma weightedScore_engine_bound:
  assumes "\<forall>l\<in>{collab, content, market, behav}.
             distinct (map r_courseId l) \<and> (\<forall>r\<in>set l. 0 \<le> r_score r \<and> r_score r \<le> 1)"
  shows "0 \<le> weightedScore (engineSources collab content market behav) k
       \<and> weightedScore (engineSources collab content market behav) k \<le> 1"
proof -
  have a: "0 \<le> sum_list (map (\<lambda>r. r_score r * (35/100)) (filter (\<lambda>r. r_courseId r = k) collab))
       \<and> sum_list (map (\<lambda>r. r_score r * (35/100)) (filter (\<lambda>r. r_courseId r = k) collab)) \<le> 35/100"
    using assms by (intro single_source_bound) auto
  have b: "0 \<le> sum_list (map (\<lambda>r. r_score r * (35/100)) (filter (\<lambda>r. r_courseId r = k) content))
       \<and> sum_list (map (\<lambda>r. r_score r * (35/100)) (filter (\<lambda>r. r_courseId r = k) content)) \<le> 35/100"
    using assms by (intro single_source_bound) auto
  have c: "0 \<le> sum_list (map (\<lambda>r. r_score r * (20/100)) (filter (\<lambda>r. r_courseId r = k) market))
       \<and> sum_list (map (\<lambda>r. r_score r * (20/100)) (filter (\<lambda>r. r_courseId r = k) market)) \<le> 20/100"
    using assms by (intro single_source_bound) auto
  have d: "0 \<le> sum_list (map (\<lambda>r. r_score r * (10/100)) (filter (\<lambda>r. r_courseId r = k) behav))
       \<and> sum_list (map (\<lambda>r. r_score r * (10/100)) (filter (\<lambda>r. r_courseId r = k) behav)) \<le> 10/100"
    using assms by (intro single_source_bound) auto
  have "weightedScore (engineSources collab content market behav) k =
      sum_list (map (\<lambda>r. r_score r * (35/100)) (filter (\<lambda>r. r_courseId r = k) collab))
    + sum_list (map (\<lambda>r. r_score r * (35/100)) (filter (\<lambda>r. r_courseId r = k) content))
    + sum_list (map (\<lambda>r. r_score r * (20/100)) (filter (\<lambda>r. r_courseId r = k) market))
    + sum_list (map (\<lambda>r. r_score r * (10/100)) (filter (\<lambda>r. r_courseId r = k) behav))"
    by (simp add: weightedScore_def engineSources_def engine_weights_def)
  then show ?thesis using a b c d by linarith
qed

text \<open>
  C3 (amended). combineRecommendations groups the candidates by courseId: the merged list
  has one entry per courseId that occurs in any source. The score of an entry is the sum,
  over every candidate entry with that courseId in every source, of the entry's score times
  its source's weight; the engine's four weights add up to 1. When no source lists a courseId
  twice and all candidate scores lie in [0,1], every combined score lies in [0,1].
\<close>

theorem combineRecommendations_weighted:
  "distinct (map c_courseId (combineRecommendations (engineSources collab content market behav)))
   \<and> c_courseId ` set (combineRecommendations (engineSources collab content market behav))
       = r_courseId ` (set collab \<union> set content \<union> set market \<union> set behav)
   \<and> (\<forall>c\<in>set (combineRecommendations (engineSources collab content market behav)).
         c_score c = weightedScore (engineSources collab content market behav) (c_courseId c))
   \<and> w_collaborative engine_weights + w_contentBased engine_weights
       + w_marketDriven engine_weights + w_behavioral engine_weights = 1
   \<and> ((\<forall>l\<in>{collab, content, market, behav}.
          distinct (map r_courseId l) \<and> (\<forall>r\<in>set l. 0 \<le> r_score r \<and> r_score r \<le> 1))
       \<longrightarrow> (\<forall>c\<in>set (combineRecommendations (engineSources collab content market behav)).
              0 \<le> c_score c \<and> c_score c \<le> 1))"
proof (intro conjI)
  show "distinct (map c_courseId (combineRecommendations (engineSources collab content market behav)))"
    by (rule combineRecommendations_distinct)
  have "c_courseId ` set (combineAll (engineSources collab content market behav))
       = r_courseId ` (set collab \<union> set content \<union> set market \<union> set behav)"
    unfolding combineAll_combineStep fold_combineStep_ids_set by (auto simp: engineSources_def)
  then show "c_courseId ` set (combineRecommendations (engineSources collab content market behav))
       = r_courseId ` (set collab \<union> set content \<union> set market \<union> set behav)"
    by (simp add: combineRecommendations_set)
  show sc: "\<forall>c\<in>set (combineRecommendations (engineSources collab content market behav)).
         c_score c = weightedScore (engineSources collab content market behav) (c_courseId c)"
    by (simp add: combineRecommendations_set combineAll_score)
  show "w_collaborative engine_weights + w_contentBased engine_weights
       + w_marketDriven engine_weights + w_behavioral engine_weights = 1"
    by (rule engine_weights_sum)
  show "(\<forall>l\<in>{collab, content, market, behav}.
          distinct (map r_courseId l) \<and> (\<forall>r\<in>set l. 0 \<le> r_score r \<and> r_score r \<le> 1))
       \<longrightarrow> (\<forall>c\<in>set (combineRecommendations (engineSources collab content market behav)).
              0 \<le> c_score c \<and> c_score c \<le> 1)"
    using sc weightedScore_engine_bound [of collab content market behav] by simp
qed

theorem combineRecommendations_weighted_witness:
  "list_all (\<lambda>c. 0 \<le> c_score c \<and> c_score c \<le> 1)
     (combineRecommendations (engineSources [ex_rec ''c1'' 0.8] [ex_rec ''c1'' 0.6, ex_rec ''c2'' 1]
        [ex_rec ''c2'' 0.5] []))
   \<and> map c_courseId (combineRecommendations (engineSources [ex_rec ''c1'' 0.8] [ex_rec ''c1'' 0.6, ex_rec ''c2'' 1]
        [ex_rec ''c2'' 0.5] [])) = [''c1'', ''c2'']"
proof -
  have h: "\<forall>l\<in>{[ex_rec ''c1'' 0.8], [ex_rec ''c1'' 0.6, ex_rec ''c2'' 1], [ex_rec ''c2'' 0.5], []}.
          distinct (map r_courseId l) \<and> (\<forall>r\<in>set l. 0 \<le> r_score r \<and> r_score r \<le> 1)"
    by (simp add: ex_rec_def)
  have "\<forall>c\<in>set (combineRecommendations (engineSources [ex_rec ''c1'' 0.8] [ex_rec ''c1'' 0.6, ex_rec ''c2'' 1]
        [ex_rec ''c2'' 0.5] [])). 0 \<le> c_score c \<and> c_score c \<le> 1"
    using combineRecommendations_weighted
      [of "[ex_rec ''c1'' 0.8]" "[ex_rec ''c1'' 0.6, ex_rec ''c2'' 1]" "[ex_rec ''c2'' 0.5]" "[]"] h
    by blast
  moreover have "map c_courseId (combineRecommendations (engineSources [ex_rec ''c1'' 0.8] [ex_rec ''c1'' 0.6, ex_rec ''c2'' 1]
        [ex_rec ''c2'' 0.5] [])) = [''c1'', ''c2'']"
    by (simp add: combineRecommendations_def combineAll_def engineSources_def engine_weights_def ex_rec_def)
  ultimately show ?thesis by (simp add: list_all_iff)
qed

text \<open>
  C3 as stated fails: a source may list a course more than once (the market scorer emits one
  entry per matching trend), each entry adds its weighted score, and the sum exceeds 1 although
  every candidate score is in [0,1].
\<close>

theorem combineRecommendations_score_counterexample:
  "list_all (\<lambda>r. 0 \<le> r_score r \<and> r_score r \<le> 1)
     ([ex_rec ''c1'' 1] @ [ex_rec ''c1'' 1] @ [ex_rec ''c1'' 0.75, ex_rec ''c1'' 0.68] @ [ex_rec ''c1'' 1])
   \<and> map c_score (combineRecommendations
        (engineSources [ex_rec ''c1'' 1] [ex_rec ''c1'' 1] [ex_rec ''c1'' 0.75, ex_rec ''c1'' 0.68]
           [ex_rec ''c1'' 1])) = [1.086]
   \<and> \<not> (1.086 \<le> (1::real))"
  by (simp add: combineRecommendations_def combineAll_def engineSources_def engine_weights_def ex_rec_def)

subsection \<open>applyDiversityFilter\<close>

lemma courseMapOf_snoc: "courseMapOf (cs @ [c]) = (courseMapOf cs)(course_id c \<mapsto> c)"
  by (simp add: courseMapOf_def)

lemma courseMapOf_filter:
  "courseMapOf (filter (\<lambda>c. course_id c \<in> S) cs) k = (if k \<in> S then courseMapOf cs k else None)"
proof (induction cs arbitrary: k rule: rev_induct)
  case Nil
  then show ?case by (simp add: courseMapOf_def)
next
  case (snoc c cs)
  then show ?case by (simp add: courseMapOf_snoc)
qed

lemma courseMapOf_find_in:
  "courseMapOf (Course_find_in d ids) k = (if k \<in> set ids then courseOf d k else None)"
  by (simp add: Course_find_in_def courseOf_def courseMapOf_filter)

lemma isDiverse_cong:
  "\<forall>s\<in>set acc. m (c_courseId s) = m' (c_courseId s) \<Longrightarrow> isDiverse m df cc acc = isDiverse m' df cc acc"
  by (simp add: isDiverse_def list_all_iff)

lemma diversityLoop_cong:
  "\<forall>s\<in>set acc \<union> set rest. m (c_courseId s) = m' (c_courseId s)
   \<Longrightarrow> diversityLoop m df acc rest = diversityLoop m' df acc rest"
proof (induction rest arbitrary: acc)
  case Nil
  then show ?case by simp
next
  case (Cons c rest)
  have eqc: "m (c_courseId c) = m' (c_courseId c)" using Cons.prems by simp
  have acc: "\<forall>s\<in>set acc. m (c_courseId s) = m' (c_courseId s)" using Cons.prems by simp
  have r1: "diversityLoop m df acc rest = diversityLoop m' df acc rest"
    using Cons.prems by (intro Cons.IH) simp
  have r2: "diversityLoop m df (acc @ [c]) rest = diversityLoop m' df (acc @ [c]) rest"
    using Cons.prems by (intro Cons.IH) simp
  show ?case
    using eqc r1 r2 isDiverse_cong [OF acc] by (simp split: option.splits)
qed

lemma diversityLoop_snoc:
  "diversityLoop m df acc (rest @ [c]) =
     (case m (c_courseId c) of
        None \<Rightarrow> diversityLoop m df acc rest
      | Some cc \<Rightarrow> if isDiverse m df cc (diversityLoop m df acc rest)
                   then diversityLoop m df acc rest @ [c] else diversityLoop m df acc rest)"
  by (induction rest arbitrary: acc) (simp_all split: option.splits)

lemma diversityLoop_hd: "acc \<noteq> [] \<Longrightarrow> hd (diversityLoop m df acc rest) = hd acc"
  by (induction rest arbitrary: acc) (simp_all split: option.splits)

lemma applyDiversityFilter_store:
  "applyDiversityFilter d (r # rs) df = diversityLoop (courseOf d) df [r] rs"
proof (cases rs)
  case Nil
  then show ?thesis by (simp add: applyDiversityFilter_def)
next
  case (Cons a as)
  have "diversityLoop (courseMapOf (Course_find_in d (map c_courseId (r # rs)))) df [r] rs
      = diversityLoop (courseOf d) df [r] rs"
    by (rule diversityLoop_cong) (simp add: courseMapOf_find_in)
  then show ?thesis using Cons by (simp add: applyDiversityFilter_def Let_def)
qed

lemma isDiverse_iff:
  "isDiverse (courseOf d) df cc acc =
     (\<forall>sel\<in>set acc. \<forall>sc. courseOf d (c_courseId sel) = Some sc \<longrightarrow> calculateCourseSimilarity cc sc \<le> dbl_sub 1 df)"
  by (auto simp: isDiverse_def list_all_iff split: option.splits)

lemmas round64_simps = round64_def exponent_def pow2_def roundEven_def bitLength.simps Let_def

lemmas dbl_simps = dbl_def dbl_add_def dbl_sub_def dbl_mul_def dbl_div_def

lemmas ex_simps = ex_db_def ex_courses_def ex_course_def ex_cand_def ex_user_def ex_hist_def
  cand1_def cand2_def cand3_def cand9_def

text \<open>The threshold at the default diversityFactor is the double 0.7.\<close>

lemma defaultThreshold: "dbl_sub 1 defaultDiversityFactor = 6305039478318694 / 2 ^ 53"
  by (simp add: defaultDiversityFactor_def dbl_simps round64_simps)

lemma courseOf_ex:
  "courseOf ex_db ''c1'' = Some (ex_course ''c1'' ''web'' [''react''] ''beginner'')"
  "courseOf ex_db ''c2'' = Some (ex_course ''c2'' ''web'' [''react''] ''beginner'')"
  "courseOf ex_db ''c3'' = Some (ex_course ''c3'' ''cloud'' [''docker''] ''advanced'')"
  "courseOf ex_db ''c9'' = None"
  by (simp_all add: courseOf_def courseMapOf_def ex_simps)

lemma calculateCourseSimilarity_c2_c1:
  "calculateCourseSimilarity (ex_course ''c2'' ''web'' [''react''] ''beginner'')
       (ex_course ''c1'' ''web'' [''react''] ''beginner'') = 1"
  by (simp add: calculateCourseSimilarity_def calculateSkillSimilarity_def toLowerCase_def
        toLowerCase_char_def ex_course_def dbl_simps round64_simps)

lemma calculateCourseSimilarity_c3_c1:
  "calculateCourseSimilarity (ex_course ''c3'' ''cloud'' [''docker''] ''advanced'')
       (ex_course ''c1'' ''web'' [''react''] ''beginner'') = 0"
  by (simp add: calculateCourseSimilarity_def calculateSkillSimilarity_def toLowerCase_def
        toLowerCase_char_def ex_course_def dbl_simps round64_simps)

text \<open>
  C4 (amended). For every non-empty candidate list and every diversityFactor the filter keeps
  the first candidate, which is the top-scored one when the list is in descending score order
  (as combineRecommendations returns it). A subsequent candidate is accepted if and only if the
  store holds a course record for it and its course similarity to every already accepted
  candidate that has a course record is at most \<open>1 - diversityFactor\<close>, both numbers as
  the code computes them in binary64 arithmetic; a candidate without a course record is
  dropped.
\<close>

theorem applyDiversityFilter_accepts:
  "recs \<noteq> [] \<Longrightarrow>
     hd (applyDiversityFilter d recs df) = hd recs
   \<and> (sorted_wrt (\<lambda>a b. c_score b \<le> c_score a) recs
        \<longrightarrow> (\<forall>r\<in>set recs. c_score r \<le> c_score (hd (applyDiversityFilter d recs df))))
   \<and> applyDiversityFilter d (recs @ [cand]) df =
       (if \<exists>cc. courseOf d (c_courseId cand) = Some cc \<and>
              (\<forall>sel\<in>set (applyDiversityFilter d recs df). \<forall>sc.
                  courseOf d (c_courseId sel) = Some sc \<longrightarrow> calculateCourseSimilarity cc sc \<le> dbl_sub 1 df)
        then applyDiversityFilter d recs df @ [cand]
        else applyDiversityFilter d recs df)"
proof -
  assume "recs \<noteq> []"
  then obtain r rs where recs: "recs = r # rs" by (cases recs) auto
  have h: "hd (applyDiversityFilter d recs df) = hd recs"
    by (simp add: recs applyDiversityFilter_store diversityLoop_hd)
  have s: "sorted_wrt (\<lambda>a b. c_score b \<le> c_score a) recs
        \<longrightarrow> (\<forall>x\<in>set recs. c_score x \<le> c_score (hd (applyDiversityFilter d recs df)))"
    unfolding h by (auto simp: recs)
  have "applyDiversityFilter d (recs @ [cand]) df = diversityLoop (courseOf d) df [r] (rs @ [cand])"
    by (simp add: recs applyDiversityFilter_store)
  then have a: "applyDiversityFilter d (recs @ [cand]) df =
       (if \<exists>cc. courseOf d (c_courseId cand) = Some cc \<and>
              (\<forall>sel\<in>set (applyDiversityFilter d recs df). \<forall>sc.
                  courseOf d (c_courseId sel) = Some sc \<longrightarrow> calculateCourseSimilarity cc sc \<le> dbl_sub 1 df)
        then applyDiversityFilter d recs df @ [cand]
        else applyDiversityFilter d recs df)"
    by (simp add: diversityLoop_snoc recs applyDiversityFilter_store isDiverse_iff split: option.splits)
  show ?thesis using h s a by blast
qed

theorem applyDiversityFilter_accepts_witness:
  "[cand1, cand2] \<noteq> []
   \<and> applyDiversityFilter ex_db [cand1, cand2] defaultDiversityFactor = [cand1]
   \<and> applyDiversityFilter ex_db ([cand1, cand2] @ [cand3]) defaultDiversityFactor = [cand1, cand3]"
proof -
  have ne: "[cand1, cand2] \<noteq> []" by simp
  have p: "applyDiversityFilter ex_db [cand1, cand2] defaultDiversityFactor = [cand1]"
    by (simp add: applyDiversityFilter_store isDiverse_def courseOf_ex
          calculateCourseSimilarity_c2_c1 defaultThreshold cand1_def cand2_def ex_cand_def)
  have c3: "courseOf ex_db (c_courseId cand3) = Some (ex_course ''c3'' ''cloud'' [''docker''] ''advanced'')"
    by (simp add: courseOf_ex cand3_def ex_cand_def)
  have c1: "courseOf ex_db (c_courseId cand1) = Some (ex_course ''c1'' ''web'' [''react''] ''beginner'')"
    by (simp add: courseOf_ex cand1_def ex_cand_def)
  show ?thesis
    using applyDiversityFilter_accepts [OF ne, of ex_db defaultDiversityFactor cand3]
    by (simp add: p c3 c1 calculateCourseSimilarity_c3_c1 defaultThreshold)
qed

text \<open>
  C4 as stated fails: the second candidate has no course record in the store, so no accepted
  candidate is more similar to it than \<open>1 - diversityFactor\<close>, and yet it is not accepted.
\<close>

theorem applyDiversityFilter_counterexample:
  "applyDiversityFilter ex_db ([cand1] @ [cand9]) defaultDiversityFactor = [cand1]
   \<and> \<not> (\<exists>sel\<in>set (applyDiversityFilter ex_db [cand1] defaultDiversityFactor). \<exists>cc sc.
           courseOf ex_db (c_courseId cand9) = Some cc
         \<and> courseOf ex_db (c_courseId sel) = Some sc
         \<and> calculateCourseSimilarity cc sc > dbl_sub 1 defaultDiversityFactor)"
proof -
  have "courseOf ex_db (c_courseId cand9) = None"
    by (simp add: courseOf_ex cand9_def ex_cand_def)
  moreover have "applyDiversityFilter ex_db ([cand1] @ [cand9]) defaultDiversityFactor = [cand1]"
    by (simp add: applyDiversityFilter_store courseOf_ex cand1_def cand9_def ex_cand_def)
  ultimately show ?thesis by simp
qed

text \<open>
  The comparison is between doubles. At the default diversityFactor a candidate of the same
  category as the accepted one, with three of its four skills shared and another difficulty,
  has similarity \<open>0.4 + 0.75 * 0.4\<close>, computed as 0.7000000000000001, above the computed
  threshold \<open>1 - 0.3\<close>: it is dropped, although over the reals the two numbers are equal.
  Likewise at diversityFactor 0.4 a candidate of the same category and difficulty with no
  shared skill has the computed similarity 0.6000000000000001 and is dropped.
\<close>

lemma courseOf_near:
  "courseOf ex_db_near ''n1'' = Some (ex_course ''n1'' ''web'' [''react'', ''docker'', ''python''] ''beginner'')"
  "courseOf ex_db_near ''n2'' =
     Some (ex_course ''n2'' ''web'' [''react'', ''docker'', ''python'', ''kafka''] ''advanced'')"
  "courseOf ex_db_near ''n3'' = Some (ex_course ''n3'' ''web'' [] ''beginner'')"
  by (simp_all add: courseOf_def courseMapOf_def ex_db_near_def ex_courses_near_def ex_course_def)

lemma calculateCourseSimilarity_n2_n1:
  "calculateCourseSimilarity
       (ex_course ''n2'' ''web'' [''react'', ''docker'', ''python'', ''kafka''] ''advanced'')
       (ex_course ''n1'' ''web'' [''react'', ''docker'', ''python''] ''beginner'')
     = 6305039478318695 / 2 ^ 53"
  by (simp add: calculateCourseSimilarity_def calculateSkillSimilarity_def toLowerCase_def
        toLowerCase_char_def ex_course_def dbl_simps round64_simps)

lemma calculateCourseSimilarity_n3_n1:
  "calculateCourseSimilarity (ex_course ''n3'' ''web'' [] ''beginner'')
       (ex_course ''n1'' ''web'' [''react'', ''docker'', ''python''] ''beginner'')
     = 5404319552844596 / 2 ^ 53"
  by (simp add: calculateCourseSimilarity_def calculateSkillSimilarity_def toLowerCase_def
        toLowerCase_char_def ex_course_def dbl_simps round64_simps)

lemma nearThreshold: "dbl_sub 1 nearFactor = 5404319552844595 / 2 ^ 53"
  by (simp add: nearFactor_def dbl_simps round64_simps)

lemma applyDiversityFilter_rounding_default:
  "applyDiversityFilter ex_db_near [near1, near2] defaultDiversityFactor = [near1]
   \<and> 0.4 + (3 / 4) * 0.4 \<le> 1 - (0.3 :: real)"
  by (simp add: applyDiversityFilter_store isDiverse_def courseOf_near
        calculateCourseSimilarity_n2_n1 defaultThreshold near1_def near2_def ex_cand_def)

lemma applyDiversityFilter_rounding_equal_category_difficulty:
  "applyDiversityFilter ex_db_near [near1, near3] nearFactor = [near1]
   \<and> 0.4 + 0 * 0.4 + 0.2 \<le> 1 - (0.4 :: real)"
  by (simp add: applyDiversityFilter_store isDiverse_def courseOf_near
        calculateCourseSimilarity_n3_n1 nearThreshold near1_def near3_def ex_cand_def)

subsection \<open>enrichRecommendations and generateRecommendations\<close>

lemma find_id: "find (\<lambda>u. u_id u = k) us = Some u \<Longrightarrow> u_id u = k"
  by (induction us) (auto split: if_splits)

lemma enrichRecommendations_eq:
  "enrichRecommendations d recs incl =
     map (enrich (courseOf d) incl) (filter (\<lambda>r. courseOf d (c_courseId r) \<noteq> None) recs)"
proof -
  have m: "\<And>r. r \<in> set recs \<Longrightarrow>
      courseMapOf (Course_find_in d (map c_courseId recs)) (c_courseId r) = courseOf d (c_courseId r)"
    by (simp add: courseMapOf_find_in)
  have "filter (\<lambda>e. e_course e \<noteq> None)
          (map (enrich (courseMapOf (Course_find_in d (map c_courseId recs))) incl) recs)
      = map (enrich (courseMapOf (Course_find_in d (map c_courseId recs))) incl)
          (filter (\<lambda>r. courseOf d (c_courseId r) \<noteq> None) recs)"
    unfolding filter_map by (rule arg_cong [where f = "map _"], rule filter_cong) (simp_all add: m enrich_def)
  also have "\<dots> = map (enrich (courseOf d) incl) (filter (\<lambda>r. courseOf d (c_courseId r) \<noteq> None) recs)"
    by (rule map_cong) (simp_all add: enrich_def m)
  finally show ?thesis by (simp add: enrichRecommendations_def Let_def)
qed

lemma enrichRecommendations_course:
  "e \<in> set (enrichRecommendations d recs incl) \<Longrightarrow>
     \<exists>c. e_course e = Some c \<and> courseOf d (e_courseId e) = Some c"
  by (auto simp: enrichRecommendations_eq enrich_def)

lemma generateRecommendations_miss:
  "c (userId, opts) = None \<Longrightarrow> find (\<lambda>u. u_id u = userId) (db_users d) = Some user \<Longrightarrow>
   generateRecommendations sc d c userId opts =
     Inr (enrichRecommendations d (slice0 (filteredRecs sc d user opts) (o_limit opts)) (o_includeExplanations opts),
          c((userId, opts) \<mapsto>
            enrichRecommendations d (slice0 (filteredRecs sc d user opts) (o_limit opts)) (o_includeExplanations opts)))"
  by (frule find_id)
     (simp add: generateRecommendations_def CacheManager_get_def CacheManager_set_def filteredRecs_def Let_def)

lemma generateRecommendations_cases:
  assumes "generateRecommendations sc d c userId opts = Inr (out, c')"
  shows "(c (userId, opts) = Some out \<and> c' = c) \<or>
         (\<exists>user. c (userId, opts) = None \<and> find (\<lambda>u. u_id u = userId) (db_users d) = Some user \<and>
            out = enrichRecommendations d (slice0 (filteredRecs sc d user opts) (o_limit opts)) (o_includeExplanations opts)
          \<and> c' = c((userId, opts) \<mapsto> out))"
proof (cases "c (userId, opts)")
  case None
  show ?thesis
  proof (cases "find (\<lambda>u. u_id u = userId) (db_users d)")
    case N: None
    then show ?thesis using assms None
      by (simp add: generateRecommendations_def CacheManager_get_def)
  next
    case (Some user)
    then show ?thesis
      using assms None generateRecommendations_miss [of c userId opts d user sc] by auto
  qed
next
  case (Some a)
  then show ?thesis using assms
    by (simp add: generateRecommendations_def CacheManager_get_def)
qed

lemma cacheHoldsCourses_upd:
  "cacheHoldsCourses c \<Longrightarrow> \<forall>r\<in>set out. e_course r \<noteq> None \<Longrightarrow> cacheHoldsCourses (c(k \<mapsto> out))"
  unfolding cacheHoldsCourses_def by (simp split: if_splits)

text \<open>
  C10. Every recommendation generateRecommendations returns carries a course record: this
  holds for a freshly computed list (where the record is the store's record for that courseId)
  and, cached lists being lists stored by earlier calls, for a cached one. enrichRecommendations
  returns exactly the candidates whose courseId has a course in the store, silently dropping
  the others; it runs on the list already cut to the limit, so the result can be shorter than
  the limit although more candidates survived the filters: with limit 1 the survivors are
  c9 (no course record) and c3 (with one), and the result is empty.
\<close>

theorem generateRecommendations_course_records:
  "(cacheHoldsCourses c \<longrightarrow> generateRecommendations sc d c userId opts = Inr (out, c') \<longrightarrow>
      (\<forall>r\<in>set out. e_course r \<noteq> None) \<and> cacheHoldsCourses c')
   \<and> (c (userId, opts) = None \<longrightarrow> generateRecommendations sc d c userId opts = Inr (out, c') \<longrightarrow>
      (\<forall>r\<in>set out. \<exists>crs. e_course r = Some crs \<and> courseOf d (e_courseId r) = Some crs)
      \<and> (\<exists>user. find (\<lambda>u. u_id u = userId) (db_users d) = Some user
            \<and> out = enrichRecommendations d (slice0 (filteredRecs sc d user opts) (o_limit opts))
                       (o_includeExplanations opts)))
   \<and> enrichRecommendations d recs incl =
       map (enrich (courseOf d) incl) (filter (\<lambda>r. courseOf d (c_courseId r) \<noteq> None) recs)
   \<and> (generateRecommendations ex_scorers ex_db1 Map.empty ''u2'' (default_options\<lparr>o_limit := 1\<rparr>)
         = Inr ([], Map.empty((''u2'', default_options\<lparr>o_limit := 1\<rparr>) \<mapsto> []))
       \<and> map c_courseId (filteredRecs ex_scorers ex_db1 (ex_user ''u2'' []) (default_options\<lparr>o_limit := 1\<rparr>))
           = [''c9'', ''c3'']
       \<and> courseOf ex_db1 ''c9'' = None \<and> courseOf ex_db1 ''c3'' \<noteq> None)"
proof (intro conjI impI)
  assume inv: "cacheHoldsCourses c" and g: "generateRecommendations sc d c userId opts = Inr (out, c')"
  from generateRecommendations_cases [OF g]
  show "\<forall>r\<in>set out. e_course r \<noteq> None"
  proof
    assume "c (userId, opts) = Some out \<and> c' = c"
    then show ?thesis using inv by (auto simp: cacheHoldsCourses_def)
  next
    assume "\<exists>user. c (userId, opts) = None \<and> find (\<lambda>u. u_id u = userId) (db_users d) = Some user \<and>
            out = enrichRecommendations d (slice0 (filteredRecs sc d user opts) (o_limit opts)) (o_includeExplanations opts)
          \<and> c' = c((userId, opts) \<mapsto> out)"
    then show ?thesis using enrichRecommendations_course by fastforce
  qed
  then show "cacheHoldsCourses c'"
    using generateRecommendations_cases [OF g] inv cacheHoldsCourses_upd [of c out "(userId, opts)"]
    by blast
next
  assume miss: "c (userId, opts) = None" and g: "generateRecommendations sc d c userId opts = Inr (out, c')"
  from generateRecommendations_cases [OF g] miss
  obtain user where u: "find (\<lambda>u. u_id u = userId) (db_users d) = Some user"
    and out: "out = enrichRecommendations d (slice0 (filteredRecs sc d user opts) (o_limit opts)) (o_includeExplanations opts)"
    by auto
  show "\<forall>r\<in>set out. \<exists>crs. e_course r = Some crs \<and> courseOf d (e_courseId r) = Some crs"
    unfolding out using enrichRecommendations_course by blast
  show "\<exists>user. find (\<lambda>u. u_id u = userId) (db_users d) = Some user
            \<and> out = enrichRecommendations d (slice0 (filteredRecs sc d user opts) (o_limit opts))
                       (o_includeExplanations opts)"
    using u out by blast
next
  show "enrichRecommendations d recs incl =
       map (enrich (courseOf d) incl) (filter (\<lambda>r. courseOf d (c_courseId r) \<noteq> None) recs)"
    by (rule enrichRecommendations_eq)
next
  have c9: "courseOf ex_db1 ''c9'' = None"
    and c3v: "courseOf ex_db1 ''c3'' = Some (ex_course ''c3'' ''cloud'' [''docker''] ''advanced'')"
    by (simp_all add: courseOf_def courseMapOf_def ex_db1_def ex_courses_def ex_course_def)
  have c3: "courseOf ex_db1 ''c3'' \<noteq> None"
    by (simp add: c3v)
  show "courseOf ex_db1 ''c9'' = None" by (rule c9)
  show "courseOf ex_db1 ''c3'' \<noteq> None" by (rule c3)
  have cf: "collaborativeFiltering ex_db1 ''u2'' = []"
    by (simp add: collaborativeFiltering_def ex_db1_def)
  have comb: "combineRecommendations (engineSources [] [ex_rec ''c9'' 1, ex_rec ''c3'' 0.5] [] [])
     = [\<lparr>c_courseId = ''c9'', c_score = 0.35,
          c_sources = [\<lparr>s_type = ''content-based'', s_score = 1, s_reason = ''because''\<rparr>]\<rparr>,
        \<lparr>c_courseId = ''c3'', c_score = 0.175,
          c_sources = [\<lparr>s_type = ''content-based'', s_score = 0.5, s_reason = ''because''\<rparr>]\<rparr>]"
    by (simp add: combineRecommendations_def combineAll_def engineSources_def engine_weights_def ex_rec_def)
  have fr: "filteredRecs ex_scorers ex_db1 (ex_user ''u2'' []) (default_options\<lparr>o_limit := 1\<rparr>)
     = [\<lparr>c_courseId = ''c9'', c_score = 0.35,
          c_sources = [\<lparr>s_type = ''content-based'', s_score = 1, s_reason = ''because''\<rparr>]\<rparr>,
        \<lparr>c_courseId = ''c3'', c_score = 0.175,
          c_sources = [\<lparr>s_type = ''content-based'', s_score = 0.5, s_reason = ''because''\<rparr>]\<rparr>]"
    unfolding filteredRecs_def Let_def
    apply (simp only: ex_user_def user.simps cf ex_scorers_def scorers.simps comb)
    apply (simp add: applyDiversityFilter_store isDiverse_def filterCompletedCourses_def
        completedCourseIds_def default_options_def c9 c3v)
    done
  show "map c_courseId (filteredRecs ex_scorers ex_db1 (ex_user ''u2'' []) (default_options\<lparr>o_limit := 1\<rparr>))
           = [''c9'', ''c3'']"
    by (simp add: fr)
  have f: "find (\<lambda>u. u_id u = ''u2'') (db_users ex_db1) = Some (ex_user ''u2'' [])"
    by (simp add: ex_db1_def ex_user_def)
  show "generateRecommendations ex_scorers ex_db1 Map.empty ''u2'' (default_options\<lparr>o_limit := 1\<rparr>)
         = Inr ([], Map.empty((''u2'', default_options\<lparr>o_limit := 1\<rparr>) \<mapsto> []))"
    using generateRecommendations_miss [of Map.empty "''u2''" "default_options\<lparr>o_limit := 1\<rparr>" ex_db1 "ex_user ''u2'' []" ex_scorers, OF _ f]
    by (simp add: fr slice0_def enrichRecommendations_eq c9)
qed

lemma ex_request:
  "generateRecommendations ex_scorers2 ex_db1 Map.empty ''u2'' default_options
     = Inr (ex_out, Map.empty((''u2'', default_options) \<mapsto> ex_out))"
  and ex_out_ids: "map e_courseId ex_out = [''c1'', ''c3'']"
proof -
  have c1v: "courseOf ex_db1 ''c1'' = Some (ex_course ''c1'' ''web'' [''react''] ''beginner'')"
    and c3v: "courseOf ex_db1 ''c3'' = Some (ex_course ''c3'' ''cloud'' [''docker''] ''advanced'')"
    by (simp_all add: courseOf_def courseMapOf_def ex_db1_def ex_courses_def ex_course_def)
  have cf: "collaborativeFiltering ex_db1 ''u2'' = []"
    by (simp add: collaborativeFiltering_def ex_db1_def)
  have comb: "map c_courseId (combineRecommendations
        (engineSources [] [ex_rec ''c1'' 1, ex_rec ''c3'' 0.5] [ex_rec ''c3'' 0.5] [])) = [''c1'', ''c3'']"
    by (simp add: combineRecommendations_def combineAll_def engineSources_def engine_weights_def ex_rec_def)
  obtain a b where ab: "combineRecommendations
        (engineSources [] [ex_rec ''c1'' 1, ex_rec ''c3'' 0.5] [ex_rec ''c3'' 0.5] []) = [a, b]"
    and ida: "c_courseId a = ''c1''" and idb: "c_courseId b = ''c3''"
    using comb by (auto simp: map_eq_Cons_conv)
  have sim: "calculateCourseSimilarity (ex_course ''c3'' ''cloud'' [''docker''] ''advanced'')
       (ex_course ''c1'' ''web'' [''react''] ''beginner'') = 0"
    by (simp add: calculateCourseSimilarity_def calculateSkillSimilarity_def toLowerCase_def
          toLowerCase_char_def ex_course_def dbl_simps round64_simps)
  have thr: "dbl_sub 1 defaultDiversityFactor = 6305039478318694 / 2 ^ 53"
    by (simp add: defaultDiversityFactor_def dbl_simps round64_simps)
  have fr: "filteredRecs ex_scorers2 ex_db1 (ex_user ''u2'' []) default_options = [a, b]"
    unfolding filteredRecs_def Let_def
    apply (simp only: ex_user_def user.simps cf ex_scorers2_def scorers.simps ab)
    apply (simp add: applyDiversityFilter_store isDiverse_def filterCompletedCourses_def
        completedCourseIds_def default_options_def c1v c3v ida idb sim thr)
    done
  have f: "find (\<lambda>u. u_id u = ''u2'') (db_users ex_db1) = Some (ex_user ''u2'' [])"
    by (simp add: ex_db1_def ex_user_def)
  show "generateRecommendations ex_scorers2 ex_db1 Map.empty ''u2'' default_options
     = Inr (ex_out, Map.empty((''u2'', default_options) \<mapsto> ex_out))"
    unfolding ex_out_def
    using generateRecommendations_miss [of Map.empty "''u2''" default_options ex_db1 "ex_user ''u2'' []" ex_scorers2, OF _ f]
    by simp
  show "map e_courseId ex_out = [''c1'', ''c3'']"
    unfolding ex_out_def fr
    by (simp add: slice0_def default_options_def enrichRecommendations_eq c1v c3v ida idb enrich_def)
qed

theorem generateRecommendations_course_records_witness:
  "generateRecommendations ex_scorers2 ex_db1 Map.empty ''u2'' default_options
       = Inr (ex_out, Map.empty((''u2'', default_options) \<mapsto> ex_out))
   \<and> map e_courseId ex_out = [''c1'', ''c3'']
   \<and> list_all (\<lambda>r. e_course r \<noteq> None) ex_out"
proof -
  have inv: "cacheHoldsCourses Map.empty"
    by (simp add: cacheHoldsCourses_def)
  have "\<forall>r\<in>set ex_out. e_course r \<noteq> None"
    using generateRecommendations_course_records
      [of Map.empty ex_scorers2 ex_db1 "''u2''" default_options ex_out
          "Map.empty((''u2'', default_options) \<mapsto> ex_out)"] inv ex_request
    by blast
  then show ?thesis using ex_request ex_out_ids by (simp add: list_all_iff)
qed

subsection \<open>analyzeSkillLevel\<close>

lemmas ev = isDigit_def isWordChar_def isSpace_def wordBoundary_def matchesAt_def execFrom_def
  contextWindow_def toLowerCase_def toLowerCase_char_def char_of_def

lemma searchFrom_Some:
  "searchFrom text lit p rest = Some q \<Longrightarrow> p \<le> q \<and> matchesAt text lit q"
  by (induction rest arbitrary: p) (fastforce split: if_splits)+

lemma execFrom_Some:
  "execFrom text lit i = Some q \<Longrightarrow> i \<le> q \<and> q + length lit \<le> length text"
  using searchFrom_Some [of "text" lit i "drop i text" q]
  by (auto simp: execFrom_def matchesAt_def split: if_splits)

lemma contextLoop_terminates:
  "lit \<noteq> [] \<Longrightarrow> \<exists>r. contextLoop text lit i acc = Some r"
proof (induction "Suc (length text) - i" arbitrary: i acc rule: less_induct)
  case less
  show ?case
  proof (cases "execFrom text lit i")
    case None
    then show ?thesis by (subst contextLoop.simps) simp
  next
    case (Some q)
    from execFrom_Some [OF Some] have b: "i \<le> q" "q + length lit \<le> length text" by auto
    have "0 < length lit" using less.prems by simp
    then have "Suc (length text) - (q + length lit) < Suc (length text) - i"
      using b by linarith
    from less.hyps [OF this less.prems]
    obtain r where "contextLoop text lit (q + length lit) (acc @ [contextWindow text lit q]) = Some r"
      by blast
    then show ?thesis using Some by (subst contextLoop.simps) simp
  qed
qed

lemma extractSkillContext_returns:
  "skillName \<noteq> [] \<Longrightarrow> \<exists>c. extractSkillContext text skillName = Some c"
  using contextLoop_terminates [of skillName "text" 0 "[]"] by (auto simp: extractSkillContext_def)

text \<open>
  For the empty skill name the loop of extractSkillContext does not end as soon as the text
  has a word boundary, and analyzeSkillLevel does not return.
\<close>

lemma contextLoop_never_from_stuck:
  assumes "contextLoop t lit j acc = Some r"
  shows "\<not> (lit = [] \<and> execFrom t lit j = Some j)"
proof (rule contextLoop.raw_induct
    [where P = "\<lambda>t lit j acc r. \<not> (lit = [] \<and> execFrom t lit j = Some j)", OF _ assms])
  fix f :: "string \<Rightarrow> string \<Rightarrow> nat \<Rightarrow> string list \<Rightarrow> string list option"
    and t' lit' j' acc' r'
  assume ih: "\<And>t lit j acc r. f t lit j acc = Some r \<Longrightarrow> \<not> (lit = [] \<and> execFrom t lit j = Some j)"
    and eq: "(case execFrom t' lit' j' of
                None \<Rightarrow> Some acc'
              | Some index \<Rightarrow> f t' lit' (index + length lit') (acc' @ [contextWindow t' lit' index]))
             = Some r'"
  show "\<not> (lit' = [] \<and> execFrom t' lit' j' = Some j')"
  proof
    assume e: "lit' = [] \<and> execFrom t' lit' j' = Some j'"
    then have l: "lit' = []" and ex: "execFrom t' [] j' = Some j'" by auto
    have "f t' [] j' (acc' @ [contextWindow t' [] j']) = Some r'"
      using eq unfolding l by (simp add: ex)
    then show False using ih ex by blast
  qed
qed

lemma contextLoop_empty_diverges:
  "execFrom t [] i = Some i \<Longrightarrow> contextLoop t [] i acc = None"
  using contextLoop_never_from_stuck [of t "[]" i acc] by (cases "contextLoop t [] i acc") auto

lemma analyzeSkillLevel_empty_name: "analyzeSkillLevel ''ab'' [] = None"
  by (simp add: analyzeSkillLevel_def extractSkillContext_def contextLoop_empty_diverges ev)

lemma fold_no_hit:
  "\<forall>k\<in>set ks. \<not> str_includes c k \<Longrightarrow>
     fold (\<lambda>k score. if str_includes c k then score + w else score) ks s = s"
  by (induction ks) simp_all

lemma levelScore_noIndicator:
  assumes "noIndicator c" and "(lvl, ind) \<in> set levelIndicators"
  shows "levelScore c lvl ind = fold (\<lambda>years score. score + yearBucket lvl years) (yearMatches c) 0"
proof -
  have k: "\<forall>k\<in>set (i_keywords ind). \<not> str_includes c k" and y: "\<forall>k\<in>set (i_years ind). \<not> str_includes c k"
    using assms by (auto simp: noIndicator_def list_all_iff)
  show ?thesis
    unfolding levelScore_def Let_def
    by (simp only: fold_no_hit [OF k] fold_no_hit [OF y])
qed

lemma bestLevel_noIndicator:
  assumes "noIndicator c" and "yearMatches c = [n]"
  shows "bestLevel c = bucketLevel n"
proof -
  have s: "\<And>lvl ind. (lvl, ind) \<in> set levelIndicators \<Longrightarrow> levelScore c lvl ind = yearBucket lvl n"
    by (simp add: levelScore_noIndicator [OF assms(1)] assms(2))
  have "map (\<lambda>(lvl, ind). (lvl, levelScore c lvl ind)) levelIndicators
      = map (\<lambda>(lvl, ind). (lvl, yearBucket lvl n)) levelIndicators"
    by (rule map_cong) (auto simp: s)
  also have "\<dots> = [(Expert, yearBucket Expert n), (Advanced, yearBucket Advanced n),
                    (Intermediate, yearBucket Intermediate n), (Beginner, yearBucket Beginner n)]"
    by (simp add: levelIndicators_def)
  finally have m: "map (\<lambda>(lvl, ind). (lvl, levelScore c lvl ind)) levelIndicators
      = [(Expert, yearBucket Expert n), (Advanced, yearBucket Advanced n),
         (Intermediate, yearBucket Intermediate n), (Beginner, yearBucket Beginner n)]" .
  consider "n = 0" | "1 \<le> n \<and> n < 3" | "3 \<le> n \<and> n < 5" | "5 \<le> n" by linarith
  then show ?thesis
  proof cases
    case 1
    then show ?thesis unfolding bestLevel_def Let_def m by (simp add: yearBucket_def bucketLevel_def)
  next
    case 2
    then show ?thesis unfolding bestLevel_def Let_def m by (simp add: yearBucket_def bucketLevel_def)
  next
    case 3
    then show ?thesis unfolding bestLevel_def Let_def m by (simp add: yearBucket_def bucketLevel_def)
  next
    case 4
    then show ?thesis unfolding bestLevel_def Let_def m by (simp add: yearBucket_def bucketLevel_def)
  qed
qed

lemma bucketLevel_mono: "n \<le> m \<Longrightarrow> levelRank (bucketLevel n) \<le> levelRank (bucketLevel m)"
  by (simp add: bucketLevel_def levelRank_def)

text \<open>
  C8 (amended). For every non-empty skill name analyzeSkillLevel returns a level. When the
  contexts of the skill in two texts contain no level keyword and no textual year phrase, and
  each states one number of years, the level is that of the number alone (expert from 5,
  advanced from 3, intermediate from 1, beginner below) and so does not decrease when the
  number grows.
\<close>

theorem analyzeSkillLevel_years_monotone:
  "skillName \<noteq> [] \<Longrightarrow>
   \<exists>c1 c2 l1 l2.
      extractSkillContext text1 skillName = Some c1 \<and> extractSkillContext text2 skillName = Some c2
    \<and> analyzeSkillLevel text1 skillName = Some l1 \<and> analyzeSkillLevel text2 skillName = Some l2
    \<and> (noIndicator (toLowerCase c1) \<and> noIndicator (toLowerCase c2)
        \<and> yearMatches (toLowerCase c1) = [n] \<and> yearMatches (toLowerCase c2) = [m] \<and> n \<le> m
        \<longrightarrow> l1 = bucketLevel n \<and> l2 = bucketLevel m \<and> levelRank l1 \<le> levelRank l2)"
proof -
  assume ne: "skillName \<noteq> []"
  obtain c1 where c1: "extractSkillContext text1 skillName = Some c1"
    using extractSkillContext_returns [OF ne] by blast
  obtain c2 where c2: "extractSkillContext text2 skillName = Some c2"
    using extractSkillContext_returns [OF ne] by blast
  have l1: "analyzeSkillLevel text1 skillName = Some (bestLevel (toLowerCase c1))"
    and l2: "analyzeSkillLevel text2 skillName = Some (bestLevel (toLowerCase c2))"
    by (simp_all add: analyzeSkillLevel_def c1 c2)
  have "noIndicator (toLowerCase c1) \<and> noIndicator (toLowerCase c2)
        \<and> yearMatches (toLowerCase c1) = [n] \<and> yearMatches (toLowerCase c2) = [m] \<and> n \<le> m
        \<longrightarrow> bestLevel (toLowerCase c1) = bucketLevel n \<and> bestLevel (toLowerCase c2) = bucketLevel m
          \<and> levelRank (bestLevel (toLowerCase c1)) \<le> levelRank (bestLevel (toLowerCase c2))"
    by (simp add: bestLevel_noIndicator bucketLevel_mono)
  then show ?thesis using c1 c2 l1 l2 by blast
qed

lemmas lv = bestLevel_def levelIndicators_def levelScore_def yearBucket_def isDigit_def isSpace_def
  parseInt_def

theorem analyzeSkillLevel_years_monotone_witness:
  "''python'' \<noteq> []
   \<and> analyzeSkillLevel ''2 years of Python'' ''python'' = Some Intermediate
   \<and> analyzeSkillLevel ''6 years of Python'' ''python'' = Some Expert
   \<and> levelRank Intermediate \<le> levelRank Expert"
proof -
  have ne: "''python'' \<noteq> []" by simp
  have c1: "extractSkillContext ''2 years of Python'' ''python'' = Some ''2 years of Python''"
    by (simp add: extractSkillContext_def contextLoop.simps ev)
  have c2: "extractSkillContext ''6 years of Python'' ''python'' = Some ''6 years of Python''"
    by (simp add: extractSkillContext_def contextLoop.simps ev)
  have lo: "toLowerCase ''2 years of Python'' = ''2 years of python''"
    "toLowerCase ''6 years of Python'' = ''6 years of python''"
    by (simp_all add: toLowerCase_def toLowerCase_char_def char_of_def)
  have n1: "noIndicator ''2 years of python''" and n2: "noIndicator ''6 years of python''"
    by (simp_all add: noIndicator_def levelIndicators_def)
  have y1: "yearMatches ''2 years of python'' = [2]" and y2: "yearMatches ''6 years of python'' = [6]"
    by (simp_all add: isDigit_def isSpace_def parseInt_def)
  from analyzeSkillLevel_years_monotone [OF ne, of "''2 years of Python''" "''6 years of Python''" 2 6]
  obtain l1 l2 where
    "analyzeSkillLevel ''2 years of Python'' ''python'' = Some l1"
    "analyzeSkillLevel ''6 years of Python'' ''python'' = Some l2"
    "l1 = bucketLevel 2 \<and> l2 = bucketLevel 6 \<and> levelRank l1 \<le> levelRank l2"
    using c1 c2 lo n1 n2 y1 y2 by auto
  then show ?thesis by (auto simp: bucketLevel_def)
qed

text \<open>
  C8 as stated fails: the two texts differ only in the number of years, 2 and 3. With 2 years
  \<open>senior\<close> (1.0) beats \<open>strong\<close> (0.8) and the level is expert; with 3 years the number
  adds 0.8 to advanced, which now scores 1.6, and the level drops to advanced.
\<close>

theorem analyzeSkillLevel_counterexample:
  "analyzeSkillLevel ''Senior engineer, strong background, 2 years of Python'' ''Python'' = Some Expert
   \<and> analyzeSkillLevel ''Senior engineer, strong background, 3 years of Python'' ''Python'' = Some Advanced
   \<and> \<not> levelRank Expert \<le> levelRank Advanced"
proof -
  have c1: "extractSkillContext ''Senior engineer, strong background, 2 years of Python'' ''Python''
      = Some ''Senior engineer, strong background, 2 years of Python''"
    by (simp add: extractSkillContext_def contextLoop.simps ev)
  have c2: "extractSkillContext ''Senior engineer, strong background, 3 years of Python'' ''Python''
      = Some ''Senior engineer, strong background, 3 years of Python''"
    by (simp add: extractSkillContext_def contextLoop.simps ev)
  have lo: "toLowerCase ''Senior engineer, strong background, 2 years of Python''
        = ''senior engineer, strong background, 2 years of python''"
    "toLowerCase ''Senior engineer, strong background, 3 years of Python''
        = ''senior engineer, strong background, 3 years of python''"
    by (simp_all add: toLowerCase_def toLowerCase_char_def char_of_def)
  have b1: "bestLevel ''senior engineer, strong background, 2 years of python'' = Expert"
    by (simp add: lv)
  have b2: "bestLevel ''senior engineer, strong background, 3 years of python'' = Advanced"
    by (simp add: lv)
  show ?thesis
    by (simp add: analyzeSkillLevel_def c1 c2 lo b1 b2 levelRank_def)
qed

subsection \<open>extractSkills\<close>

lemma combine_flat:
  "combineAndDeduplicateSkills (map SkillObject xs) = (if xs = [] then Inr [] else Inl TypeError)"
  by (cases xs) (simp_all add: combineAndDeduplicateSkills_def)

text \<open>
  Whatever the text, the options and the behaviour of the extraction passes, extractSkills
  returns, and returns the empty list: without candidates there is nothing to return, and with
  candidates combineAndDeduplicateSkills throws and the \<^verbatim>\<open>catch\<close> returns \<^verbatim>\<open>[]\<close>.
\<close>

lemma extractSkills_empty: "extractSkills deps text opts = Some []"
  by (simp add: extractSkills_def extractSkills_try_def combine_flat Let_def slice0_def
        split: sum.splits)

lemmas rx = execFrom_def matchesAt_def wordBoundary_def isWordChar_def toLowerCase_def
  toLowerCase_char_def char_of_def

lemma directMatch_member:
  "skill \<in> set allSkills \<Longrightarrow> c \<in> set (directMatchesFor (toLowerCase text) skill)
   \<Longrightarrow> c \<in> set (extractDirectMatches text)"
  by (auto simp: extractDirectMatches_def)

lemma ml_in: "''machine learning'' \<in> set allSkills" and py_in: "''python'' \<in> set allSkills"
  by (simp_all add: allSkills_def skillsDatabase_def)

lemma dm_ml: "directMatchesFor (toLowerCase ''machine learning'') ''machine learning'' =
   [\<lparr>cd_name = ''machine learning'', cd_confidence = 0.9, cd_method = ''direct_match''\<rparr>,
    \<lparr>cd_name = ''machine learning'', cd_confidence = 0.7, cd_method = ''partial_match''\<rparr>]"
  by (simp add: directMatchesFor_def Let_def rx)

lemma dm_py: "directMatchesFor (toLowerCase ''python'') ''python'' =
   [\<lparr>cd_name = ''python'', cd_confidence = 0.9, cd_method = ''direct_match''\<rparr>]"
  by (simp add: directMatchesFor_def Let_def rx)

text \<open>
  On an array of arrays combineAndDeduplicateSkills does not throw and merges by lower-cased
  name: one entry per name, with the maximum confidence and the methods of all candidates of
  that name. This is the call of the repository's implementation guide,
  \<^verbatim>\<open>combineAndDeduplicateSkills([directMatches, patternMatches, nlpMatches, contextMatches])\<close>.
\<close>

lemma mergeSkill_keys:
  "map (\<lambda>s. toLowerCase (sk_name s)) (mergeSkill c m) =
     (if toLowerCase (cd_name c) \<in> set (map (\<lambda>s. toLowerCase (sk_name s)) m)
      then map (\<lambda>s. toLowerCase (sk_name s)) m
      else map (\<lambda>s. toLowerCase (sk_name s)) m @ [toLowerCase (cd_name c)])"
  by (induction m) auto

lemma mergeSkill_cases:
  "distinct (map (\<lambda>s. toLowerCase (sk_name s)) m) \<Longrightarrow> s' \<in> set (mergeSkill c m) \<Longrightarrow>
     (s' \<in> set m \<and> toLowerCase (sk_name s') \<noteq> toLowerCase (cd_name c))
   \<or> (\<exists>s\<in>set m. toLowerCase (sk_name s) = toLowerCase (cd_name c)
         \<and> s' = s\<lparr>sk_confidence := max (sk_confidence s) (cd_confidence c),
                   sk_methods := sk_methods s @ [cd_method c]\<rparr>)
   \<or> (toLowerCase (cd_name c) \<notin> set (map (\<lambda>s. toLowerCase (sk_name s)) m) \<and> s' = newSkill c)"
proof (induction m)
  case Nil
  then show ?case by (simp add: newSkill_def)
next
  case (Cons a m)
  show ?case
  proof (cases "toLowerCase (sk_name a) = toLowerCase (cd_name c)")
    case True
    then have "s' = a\<lparr>sk_confidence := max (sk_confidence a) (cd_confidence c),
                          sk_methods := sk_methods a @ [cd_method c]\<rparr> \<or> s' \<in> set m"
      using Cons.prems(2) by simp
    then show ?thesis
    proof
      assume "s' = a\<lparr>sk_confidence := max (sk_confidence a) (cd_confidence c),
                          sk_methods := sk_methods a @ [cd_method c]\<rparr>"
      then show ?thesis using True by auto
    next
      assume m: "s' \<in> set m"
      have "toLowerCase (sk_name a) \<notin> (\<lambda>s. toLowerCase (sk_name s)) ` set m"
        using Cons.prems(1) by simp
      moreover have "toLowerCase (sk_name s') \<in> (\<lambda>s. toLowerCase (sk_name s)) ` set m"
        using m by auto
      ultimately have "toLowerCase (sk_name s') \<noteq> toLowerCase (sk_name a)"
        by auto
      then show ?thesis using m True by simp
    qed
  next
    case False
    then have "s' = a \<or> s' \<in> set (mergeSkill c m)" using Cons.prems(2) by simp
    then show ?thesis
    proof
      assume "s' = a"
      then show ?thesis using False by simp
    next
      assume "s' \<in> set (mergeSkill c m)"
      moreover have "distinct (map (\<lambda>s. toLowerCase (sk_name s)) m)"
        using Cons.prems(1) by simp
      ultimately show ?thesis using Cons.IH False by auto
    qed
  qed
qed

lemma mergedFrom_other:
  "toLowerCase (sk_name s) \<noteq> toLowerCase (cd_name c) \<Longrightarrow> mergedFrom cs s \<Longrightarrow> mergedFrom (cs @ [c]) s"
  by (simp add: mergedFrom_def Let_def)

lemma mergedFrom_update:
  assumes "toLowerCase (sk_name s) = toLowerCase (cd_name c)" and "mergedFrom cs s"
  shows "mergedFrom (cs @ [c]) (s\<lparr>sk_confidence := max (sk_confidence s) (cd_confidence c),
                                   sk_methods := sk_methods s @ [cd_method c]\<rparr>)"
proof -
  let ?same = "filter (\<lambda>c'. toLowerCase (cd_name c') = toLowerCase (sk_name s)) cs"
  have ne: "?same \<noteq> []" and cf: "sk_confidence s = Max (set (map cd_confidence ?same))"
    and ms: "sk_methods s = map cd_method ?same"
    using assms(2) by (simp_all add: mergedFrom_def Let_def)
  have fin: "finite (set (map cd_confidence ?same))" by simp
  have ne': "set (map cd_confidence ?same) \<noteq> {}"
    unfolding set_empty map_is_Nil_conv by (rule ne)
  have "set (map cd_confidence (?same @ [c])) = insert (cd_confidence c) (set (map cd_confidence ?same))"
    by simp
  then have "Max (set (map cd_confidence (?same @ [c]))) = max (cd_confidence c) (Max (set (map cd_confidence ?same)))"
    using Max_insert [OF fin ne'] by simp
  then show ?thesis
    using assms(1) ne cf ms by (simp add: mergedFrom_def Let_def max.commute)
qed

lemma mergedFrom_new:
  "toLowerCase (cd_name c) \<notin> (\<lambda>c. toLowerCase (cd_name c)) ` set cs \<Longrightarrow> mergedFrom (cs @ [c]) (newSkill c)"
proof -
  assume "toLowerCase (cd_name c) \<notin> (\<lambda>c. toLowerCase (cd_name c)) ` set cs"
  then have "filter (\<lambda>c'. toLowerCase (cd_name c') = toLowerCase (cd_name c)) cs = []"
    by (simp add: filter_key_empty)
  then show ?thesis by (simp add: mergedFrom_def newSkill_def)
qed

lemma fold_mergeSkill_inv:
  assumes "distinct (map (\<lambda>s. toLowerCase (sk_name s)) m)"
    and "set (map (\<lambda>s. toLowerCase (sk_name s)) m) = (\<lambda>c. toLowerCase (cd_name c)) ` set done"
    and "\<forall>s\<in>set m. mergedFrom done s"
  shows "distinct (map (\<lambda>s. toLowerCase (sk_name s)) (fold mergeSkill cs m))
       \<and> set (map (\<lambda>s. toLowerCase (sk_name s)) (fold mergeSkill cs m))
           = (\<lambda>c. toLowerCase (cd_name c)) ` set (done @ cs)
       \<and> (\<forall>s\<in>set (fold mergeSkill cs m). mergedFrom (done @ cs) s)"
  using assms
proof (induction cs arbitrary: m "done")
  case Nil
  then show ?case by simp
next
  case (Cons c cs)
  have d: "distinct (map (\<lambda>s. toLowerCase (sk_name s)) (mergeSkill c m))"
    using Cons.prems(1) by (simp add: mergeSkill_keys)
  have k: "set (map (\<lambda>s. toLowerCase (sk_name s)) (mergeSkill c m))
      = (\<lambda>c. toLowerCase (cd_name c)) ` set (done @ [c])"
    using Cons.prems(2) by (auto simp: mergeSkill_keys)
  have p: "\<forall>s\<in>set (mergeSkill c m). mergedFrom (done @ [c]) s"
  proof
    fix s' assume "s' \<in> set (mergeSkill c m)"
    from mergeSkill_cases [OF Cons.prems(1) this] show "mergedFrom (done @ [c]) s'"
    proof (elim disjE conjE bexE)
      assume "s' \<in> set m" "toLowerCase (sk_name s') \<noteq> toLowerCase (cd_name c)"
      then show ?thesis using Cons.prems(3) mergedFrom_other by blast
    next
      fix s assume "s \<in> set m" "toLowerCase (sk_name s) = toLowerCase (cd_name c)"
        "s' = s\<lparr>sk_confidence := max (sk_confidence s) (cd_confidence c),
                 sk_methods := sk_methods s @ [cd_method c]\<rparr>"
      then show ?thesis using Cons.prems(3) mergedFrom_update by blast
    next
      assume "toLowerCase (cd_name c) \<notin> set (map (\<lambda>s. toLowerCase (sk_name s)) m)" "s' = newSkill c"
      then show ?thesis using Cons.prems(2) mergedFrom_new by auto
    qed
  qed
  show ?case
    using Cons.IH [OF d k p] by simp
qed

lemma combineLoop_arrays:
  "combineLoop (map SkillArray skillArrays) m = Inr (fold mergeSkill (concat skillArrays) m)"
  by (induction skillArrays arbitrary: m) simp_all

lemma combineAndDeduplicateSkills_nested:
  "\<exists>m. combineAndDeduplicateSkills (map SkillArray skillArrays) = Inr m
      \<and> distinct (map (\<lambda>s. toLowerCase (sk_name s)) m)
      \<and> set (map (\<lambda>s. toLowerCase (sk_name s)) m)
          = (\<lambda>c. toLowerCase (cd_name c)) ` set (concat skillArrays)
      \<and> (\<forall>s\<in>set m. mergedFrom (concat skillArrays) s)"
  using fold_mergeSkill_inv [of "[]" "[]" "concat skillArrays"]
  by (simp add: combineAndDeduplicateSkills_def combineLoop_arrays)

text \<open>
  C1 (the code departs from it). For the text \<open>machine learning\<close> direct matching produces the
  name twice, by \<open>direct_match\<close> (0.9) and by \<open>partial_match\<close> (0.7). Given the two
  candidates as an array of arrays, as the implementation guide passes them,
  combineAndDeduplicateSkills merges them as C1 says: one entry, confidence 0.9, both methods.
  extractSkills of SkillExtractor.js passes the flat array instead, the merge throws, and the
  result is the empty list.
\<close>

theorem extractSkills_merged_entry_lost:
  "preprocessText (JString ''machine learning'') = Inr ''machine learning''
   \<and> \<lparr>cd_name = ''machine learning'', cd_confidence = 0.9, cd_method = ''direct_match''\<rparr>
        \<in> set (extractDirectMatches ''machine learning'')
   \<and> \<lparr>cd_name = ''machine learning'', cd_confidence = 0.7, cd_method = ''partial_match''\<rparr>
        \<in> set (extractDirectMatches ''machine learning'')
   \<and> combineAndDeduplicateSkills
        [SkillArray [\<lparr>cd_name = ''machine learning'', cd_confidence = 0.9, cd_method = ''direct_match''\<rparr>,
                     \<lparr>cd_name = ''machine learning'', cd_confidence = 0.7, cd_method = ''partial_match''\<rparr>]]
       = Inr [\<lparr>sk_name = ''machine learning'', sk_confidence = 0.9, sk_method = ''direct_match'',
               sk_methods = [''direct_match'', ''partial_match''], sk_level = None, sk_context = None\<rparr>]
   \<and> combineAndDeduplicateSkills
        (map SkillObject
          [\<lparr>cd_name = ''machine learning'', cd_confidence = 0.9, cd_method = ''direct_match''\<rparr>,
           \<lparr>cd_name = ''machine learning'', cd_confidence = 0.7, cd_method = ''partial_match''\<rparr>])
       = Inl TypeError
   \<and> extractSkills ex_deps (JString ''machine learning'') default_extract_options = Some []"
proof (intro conjI)
  show "preprocessText (JString ''machine learning'') = Inr ''machine learning''"
    by (simp add: preprocessText_def keepChar_def trim_def isWordChar_def isSpace_def)
  show "\<lparr>cd_name = ''machine learning'', cd_confidence = 0.9, cd_method = ''direct_match''\<rparr>
        \<in> set (extractDirectMatches ''machine learning'')"
    by (rule directMatch_member [OF ml_in]) (simp add: dm_ml)
  show "\<lparr>cd_name = ''machine learning'', cd_confidence = 0.7, cd_method = ''partial_match''\<rparr>
        \<in> set (extractDirectMatches ''machine learning'')"
    by (rule directMatch_member [OF ml_in]) (simp add: dm_ml)
  show "combineAndDeduplicateSkills
        [SkillArray [\<lparr>cd_name = ''machine learning'', cd_confidence = 0.9, cd_method = ''direct_match''\<rparr>,
                     \<lparr>cd_name = ''machine learning'', cd_confidence = 0.7, cd_method = ''partial_match''\<rparr>]]
       = Inr [\<lparr>sk_name = ''machine learning'', sk_confidence = 0.9, sk_method = ''direct_match'',
               sk_methods = [''direct_match'', ''partial_match''], sk_level = None, sk_context = None\<rparr>]"
    by (simp add: combineAndDeduplicateSkills_def)
  show "combineAndDeduplicateSkills
        (map SkillObject
          [\<lparr>cd_name = ''machine learning'', cd_confidence = 0.9, cd_method = ''direct_match''\<rparr>,
           \<lparr>cd_name = ''machine learning'', cd_confidence = 0.7, cd_method = ''partial_match''\<rparr>])
       = Inl TypeError"
    by (simp add: combineAndDeduplicateSkills_def)
  show "extractSkills ex_deps (JString ''machine learning'') default_extract_options = Some []"
    by (rule extractSkills_empty)
qed

text \<open>
  C2 (the code departs from it). When the NLP library throws, extractWithNLP yields no
  candidates, as C2 says; the candidate that direct matching finds in \<open>python\<close> is
  nevertheless not returned: extractSkills gives the empty list.
\<close>

theorem extractSkills_nlp_failure_returns_nothing:
  "extractWithNLP ex_failing_nlp ''python'' = []
   \<and> preprocessText (JString ''python'') = Inr ''python''
   \<and> \<lparr>cd_name = ''python'', cd_confidence = 0.9, cd_method = ''direct_match''\<rparr>
        \<in> set (extractDirectMatches ''python'')
   \<and> extractSkills ex_failing_nlp (JString ''python'') default_extract_options = Some []"
proof (intro conjI)
  show "extractWithNLP ex_failing_nlp ''python'' = []"
    by (simp add: extractWithNLP_def ex_failing_nlp_def)
  show "preprocessText (JString ''python'') = Inr ''python''"
    by (simp add: preprocessText_def keepChar_def trim_def isWordChar_def isSpace_def)
  show "\<lparr>cd_name = ''python'', cd_confidence = 0.9, cd_method = ''direct_match''\<rparr>
        \<in> set (extractDirectMatches ''python'')"
    by (rule directMatch_member [OF py_in]) (simp add: dm_py)
  show "extractSkills ex_failing_nlp (JString ''python'') default_extract_options = Some []"
    by (rule extractSkills_empty)
qed

end
